theory Spec2Isabelle
  imports Complex_Main "HOL-Library.Multiset"
begin

section \<open>Training script for CIFAR10 (PyTorch/CIFAR10/main.py)\<close>

text \<open>
  The script is orchestration over an external numerical framework. The embedding keeps
  the script's own control flow, arithmetic and error behaviour, and takes the framework's
  numerical operations (forward pass, loss, gradients, optimizer step) as parameters.
  Python floats are modelled as reals. A Python exception is a value of type \<open>error\<close>:
  the exception together with the line of \<open>main.py\<close> that raises it; since the script
  has no \<open>try\<close>, an exception ends the computation with \<open>Inl\<close>. Printing is not modelled,
  but every value that a \<open>print\<close> computes is, together with the exception its
  computation can raise.
\<close>

subsection \<open>Errors, flags and configuration\<close>

datatype exn =
    AssertionError
  | UnboundLocalError
  | ValueError
  | ZeroDivisionError
  | FileNotFoundError
  | RuntimeError

type_synonym error = "exn \<times> nat"

text \<open>A call of a library function at a line of the script: its exception gets that line.\<close>

definition at_line :: "nat \<Rightarrow> exn + 'a \<Rightarrow> error + 'a" where
  "at_line l r = (case r of Inl e \<Rightarrow> Inl (e, l) | Inr v \<Rightarrow> Inr v)"

text \<open>The module-level switches \<open>train_CNN\<close> and \<open>train_FC\<close> (lines 21-22).\<close>

record flags =
  train_CNN :: bool
  train_FC :: bool

text \<open>
  Line 23: \<open>assert (train_CNN or train_FC) == 1\<close>. For booleans \<open>or\<close> is disjunction,
  and \<open>True == 1\<close> holds in Python while \<open>False == 1\<close> does not.
\<close>

definition module_assert :: "flags \<Rightarrow> error + unit" where
  "module_assert fl =
     (if (train_CNN fl \<or> train_FC fl) = True then Inr () else Inl (AssertionError, 23))"

text \<open>The fields set by \<open>CNN_CIFAR10.__init__\<close> (device and dtype are left to the framework).\<close>

record config =
  learning_rate :: real
  drop_rate :: real
  weight_decay :: real
  num_epochs :: int
  batch_size :: int
  num_workers :: int
  save_model :: bool
  shuffle :: bool
  pin_memory :: bool
  checkpoint_file :: string

definition CNN_CIFAR10_init :: config where
  "CNN_CIFAR10_init =
     \<lparr> learning_rate = 1 / 1000,
       drop_rate = 0,
       weight_decay = 0,
       num_epochs = 100000,
       batch_size = 64,
       num_workers = 0,
       save_model = False,
       shuffle = True,
       pin_memory = True,
       checkpoint_file = ''checkpoint/CIFAR10_VGG16'' \<rparr>"

subsection \<open>Model, optimizer and the framework operations\<close>

text \<open>
  A model object is a network of one of the two architectures. It owns its parameters
  (what \<open>state_dict()\<close> returns), the gradient buffers attached to them, and the
  training-mode flag toggled by \<open>eval()\<close> and \<open>train()\<close>.
\<close>

datatype arch = VGG16 | FullyNet

record ('p, 'g) model =
  arch :: arch
  state_dict :: 'p
  grads :: 'g
  training :: bool

text \<open>
  An optimizer's \<open>state_dict()\<close> has the per-parameter state and the list of parameter
  groups. Each group has the parameters it covers (in a state dict: their indices) under
  the key \<open>'params'\<close>, which every group has, and a dictionary from option names to values.
\<close>

datatype hyper = Num real | Flag bool

record param_group =
  params :: "nat list"
  options :: "string \<rightharpoonup> hyper"

record 'os optimizer =
  state :: 'os
  param_groups :: "param_group list"

text \<open>
  The operations of the framework that the script calls. \<open>net p t x\<close> is the row of class
  scores that the network with parameters \<open>p\<close> computes for one sample \<open>x\<close> in mode \<open>t\<close>
  (\<open>True\<close> for training); \<open>model(x)\<close> on a batch computes one row per sample.
  \<open>argmax\<close> reads the class index out of a row (\<open>scores.max(1)\<close>), \<open>reshape\<close> flattens
  one sample, \<open>criterion\<close> is the cross-entropy loss value of a batch. \<open>fullyNet\<close> comes
  from the module \<open>simple_fullynet\<close> and is a parameter like the pretrained network.
  \<open>accepts a x\<close> says whether a network of architecture \<open>a\<close> can be applied to the input
  \<open>x\<close>: a convolutional network cannot be applied to a flattened image, and \<open>model(x)\<close>
  raises \<open>RuntimeError\<close> then. \<open>layout p\<close> lists the entries of a state dict by name,
  with their shapes, and \<open>parameter_count p\<close> is the number of trainable parameters among
  them. \<open>save_error\<close> is the exception of \<open>torch.save\<close> for a file that cannot be
  created: \<open>FileNotFoundError\<close> or \<open>RuntimeError\<close>, depending on the serialization format
  of the framework's version.
\<close>

record ('p, 'g, 'os, 'x) framework =
  vgg16 :: 'p
  fullyNet :: 'p
  no_grads :: 'g
  no_state :: 'os
  sgd_defaults :: "string \<rightharpoonup> hyper"
  save_error :: exn
  layout :: "'p \<Rightarrow> (string \<times> nat list) list"
  parameter_count :: "'p \<Rightarrow> nat"
  accepts :: "arch \<Rightarrow> 'x \<Rightarrow> bool"
  net :: "'p \<Rightarrow> bool \<Rightarrow> 'x \<Rightarrow> real list"
  argmax :: "real list \<Rightarrow> nat"
  reshape :: "'x \<Rightarrow> 'x"
  criterion :: "real list list \<Rightarrow> nat list \<Rightarrow> real"
  zero_grad :: "'g \<Rightarrow> 'g"
  backward :: "'p \<Rightarrow> bool \<Rightarrow> 'x list \<Rightarrow> nat list \<Rightarrow> 'g \<Rightarrow> 'g"
  step :: "param_group list \<Rightarrow> 'os \<Rightarrow> 'g \<Rightarrow> 'p \<Rightarrow> 'p \<times> 'os"

text \<open>
  \<open>setup_model\<close> (lines 40-57): the \<open>if\<close>/\<open>elif\<close> gives the convolutional network
  priority; with neither flag the local \<open>model\<close> is unbound at \<open>return\<close>.
\<close>

definition setup_model ::
  "flags \<Rightarrow> ('p, 'g, 'os, 'x) framework \<Rightarrow> error + ('p, 'g) model" where
  "setup_model fl fw =
     (if train_CNN fl then
        Inr \<lparr> arch = VGG16, state_dict = vgg16 fw, grads = no_grads fw, training = True \<rparr>
      else if train_FC fl then
        Inr \<lparr> arch = FullyNet, state_dict = fullyNet fw, grads = no_grads fw,
              training = True \<rparr>
      else Inl (UnboundLocalError, 57))"

subsection \<open>Batches and the evaluator\<close>

text \<open>
  A batch is the collation of some samples, each an input with its label, so the data
  tensor and the target tensor of a batch are aligned by construction. A loader is the
  sequence of batches that one enumeration of it yields.
\<close>

type_synonym 'x batch = "('x \<times> nat) list"

type_synonym 'x loader = "'x batch list"

text \<open>\<open>(preds == y).sum()\<close>: the number of positions where prediction and label agree.\<close>

definition count_equal :: "nat list \<Rightarrow> nat list \<Rightarrow> nat" where
  "count_equal preds y = length (filter (\<lambda>(p, t). p = t) (zip preds y))"

text \<open>
  The \<open>for x, y in loader\<close> loop of \<open>check_accuracy\<close> (lines 90-100), on the two
  counters. The forward pass of line 97 raises when the model cannot be applied to the
  batch as it is passed.
\<close>

fun accuracy_loop ::
  "('p, 'g, 'os, 'x) framework \<Rightarrow> flags \<Rightarrow> ('p, 'g) model \<Rightarrow> 'x loader \<Rightarrow>
     nat \<times> nat \<Rightarrow> error + nat \<times> nat" where
  "accuracy_loop fw fl m [] (num_correct, num_samples) = Inr (num_correct, num_samples)"
| "accuracy_loop fw fl m (b # bs) (num_correct, num_samples) =
     (let x = map fst b;
          y = map snd b;
          x = (if train_FC fl then map (reshape fw) x else x)
      in if \<not> list_all (accepts fw (arch m)) x then Inl (RuntimeError, 97)
         else
           (let scores = map (net fw (state_dict m) (training m)) x;
                preds = map (argmax fw) scores
            in accuracy_loop fw fl m bs
                 (num_correct + count_equal preds y, num_samples + length preds)))"

text \<open>
  \<open>check_accuracy\<close> (lines 84-106). \<open>float(num_correct) / num_samples\<close> on line 101 raises
  \<open>ZeroDivisionError\<close> when no sample was seen; the model is then still in evaluation mode,
  but the exception ends the run. Otherwise the model is put back into training mode.
\<close>

definition check_accuracy ::
  "('p, 'g, 'os, 'x) framework \<Rightarrow> flags \<Rightarrow> 'x loader \<Rightarrow> ('p, 'g) model \<Rightarrow>
     error + (real \<times> ('p, 'g) model)" where
  "check_accuracy fw fl loader m =
     (let m1 = m\<lparr>training := False\<rparr>
      in case accuracy_loop fw fl m1 loader (0, 0) of
           Inl e \<Rightarrow> Inl e
         | Inr (num_correct, num_samples) \<Rightarrow>
             if num_samples = 0 then Inl (ZeroDivisionError, 101)
             else Inr (real num_correct / real num_samples * 100, m1\<lparr>training := True\<rparr>))"

text \<open>
  The model accepts every batch of a loader, as the two loops pass it: flattened when
  \<open>train_FC\<close> is set (lines 94-95 and 149-150).
\<close>

definition accepts_batches ::
  "('p, 'g, 'os, 'x) framework \<Rightarrow> flags \<Rightarrow> ('p, 'g) model \<Rightarrow> 'x loader \<Rightarrow> bool" where
  "accepts_batches fw fl m loader =
     list_all (\<lambda>b. list_all (accepts fw (arch m))
                      (if train_FC fl then map (reshape fw) (map fst b) else map fst b))
       loader"

subsection \<open>The data pipeline\<close>

text \<open>
  Iterating a \<open>DataLoader\<close> built without \<open>shuffle\<close> and without \<open>drop_last\<close> (both default
  to false) yields the samples in the order of the dataset, \<open>batch_size\<close> at a time, the
  last batch holding what is left.
\<close>

function iter_batches :: "nat \<Rightarrow> 'a list \<Rightarrow> 'a list list" where
  "iter_batches n xs =
     (if n = 0 \<or> xs = [] then [] else take n xs # iter_batches n (drop n xs))"
  by pat_completeness auto
termination
  by (relation "measure (\<lambda>(n, xs). length xs)") auto

declare iter_batches.simps [simp del]

text \<open>
  The constructor as lines 64-66 call it: dataset, \<open>batch_size\<close> and \<open>num_workers\<close>, and
  nothing else. It rejects a batch size that is not positive and a negative worker count.
\<close>

definition DataLoader :: "'a list \<Rightarrow> int \<Rightarrow> int \<Rightarrow> exn + 'a list list" where
  "DataLoader dataset bs nw =
     (if nw < 0 then Inl ValueError
      else if bs \<le> 0 then Inl ValueError
      else Inr (iter_batches (nat bs) dataset))"

text \<open>
  \<open>random_split(dataset, lengths)\<close> draws a random permutation of the indices of the
  dataset and cuts it into consecutive pieces of the given lengths; each piece is a
  \<open>Subset\<close>: the dataset seen through a list of indices. It raises \<open>ValueError\<close> when the
  lengths do not add up to the size of the dataset. The permutation that the random
  generator draws is an input of the model.
\<close>

type_synonym 'a subset = "'a list \<times> nat list"

definition subset_items :: "'a subset \<Rightarrow> 'a list" where
  "subset_items s = map (\<lambda>i. fst s ! i) (snd s)"

fun split_indices :: "nat list \<Rightarrow> nat list \<Rightarrow> nat list list" where
  "split_indices perm [] = []"
| "split_indices perm (l # ls) = take l perm # split_indices (drop l perm) ls"

definition random_split :: "'a list \<Rightarrow> nat list \<Rightarrow> nat list \<Rightarrow> exn + 'a subset list" where
  "random_split dataset lengths perm =
     (if sum_list lengths \<noteq> length dataset then Inl ValueError
      else Inr (map (\<lambda>idx. (dataset, idx)) (split_indices perm lengths)))"

text \<open>
  What the run finds outside the program: the two CIFAR10 collections as the loaders see
  them (samples after the normalising transform, which is the same for all three
  loaders), the permutation drawn for the split, and the disk: the directories that exist
  and the checkpoint files with what they hold. \<open>save_checkpoint\<close> is the only writer of
  these files, so a file that exists holds a checkpoint with its three entries.
\<close>

record ('p, 'os) checkpoint =
  ckpt_state_dict :: 'p
  ckpt_epoch :: int
  ckpt_optimizer :: "'os optimizer"

record ('p, 'os) files =
  directories :: "string set"
  contents :: "string \<rightharpoonup> ('p, 'os) checkpoint"

record ('p, 'os, 'x) env =
  train_source :: "('x \<times> nat) list"
  test_source :: "('x \<times> nat) list"
  randperm :: "nat list"
  disk :: "('p, 'os) files"

text \<open>\<open>load_data\<close> (lines 59-68). The field \<open>shuffle\<close> of the configuration is not read.\<close>

definition load_data ::
  "config \<Rightarrow> ('p, 'os, 'x) env \<Rightarrow> error + ('x loader \<times> 'x loader \<times> 'x loader)" where
  "load_data cfg ev =
     (case at_line 61 (random_split (train_source ev) [40000, 10000] (randperm ev)) of
        Inl e \<Rightarrow> Inl e
      | Inr [train_data, validation_data] \<Rightarrow>
          (case at_line 64
                  (DataLoader (subset_items train_data) (batch_size cfg) (num_workers cfg)) of
             Inl e \<Rightarrow> Inl e
           | Inr train_loader \<Rightarrow>
          (case at_line 65
                  (DataLoader (subset_items validation_data) (batch_size cfg)
                     (num_workers cfg)) of
             Inl e \<Rightarrow> Inl e
           | Inr validation_loader \<Rightarrow>
          (case at_line 66
                  (DataLoader (test_source ev) (batch_size cfg) (num_workers cfg)) of
             Inl e \<Rightarrow> Inl e
           | Inr test_loader \<Rightarrow> Inr (train_loader, validation_loader, test_loader))))
      | Inr _ \<Rightarrow> Inl (ValueError, 61))"

subsection \<open>Checkpoints\<close>

text \<open>
  \<open>torch.save(obj, filename)\<close> replaces what the file held. It raises when the directory
  of the file does not exist, as \<open>checkpoint/\<close> does not on a fresh checkout; a name
  without a directory part is a file of the working directory. \<open>torch.load\<close> raises when
  the file does not exist. Other failures of the disk are not modelled.
\<close>

definition dirname :: "string \<Rightarrow> string" where
  "dirname path = rev (tl (dropWhile (\<lambda>c. c \<noteq> CHR ''/'') (rev path)))"

definition writable :: "('p, 'os) files \<Rightarrow> string \<Rightarrow> bool" where
  "writable fs filename = (dirname filename = [] \<or> dirname filename \<in> directories fs)"

definition torch_save ::
  "('p, 'g, 'os, 'x) framework \<Rightarrow> ('p, 'os) checkpoint \<Rightarrow> string \<Rightarrow> ('p, 'os) files \<Rightarrow>
     exn + ('p, 'os) files" where
  "torch_save fw obj filename fs =
     (if writable fs filename then Inr (fs\<lparr>contents := (contents fs)(filename \<mapsto> obj)\<rparr>)
      else Inl (save_error fw))"

definition torch_load :: "string \<Rightarrow> ('p, 'os) files \<Rightarrow> exn + ('p, 'os) checkpoint" where
  "torch_load filename fs =
     (case contents fs filename of None \<Rightarrow> Inl FileNotFoundError | Some obj \<Rightarrow> Inr obj)"

text \<open>
  \<open>save_checkpoint\<close> (lines 108-116) writes the model's parameters, \<open>epoch + 1\<close> and the
  optimizer's state to the file; the write is line 116.
\<close>

definition save_checkpoint ::
  "('p, 'g, 'os, 'x) framework \<Rightarrow> string \<Rightarrow> ('p, 'g) model \<Rightarrow> 'os optimizer \<Rightarrow> int \<Rightarrow>
     ('p, 'os) files \<Rightarrow> error + ('p, 'os) files" where
  "save_checkpoint fw filename m opt epoch fs =
     (let save_state =
            \<lparr> ckpt_state_dict = state_dict m,
              ckpt_epoch = epoch + 1,
              ckpt_optimizer = \<lparr> state = state opt, param_groups = param_groups opt \<rparr> \<rparr>
      in at_line 116 (torch_save fw save_state filename fs))"

text \<open>
  \<open>model.load_state_dict(d)\<close> is strict: it raises \<open>RuntimeError\<close> unless \<open>d\<close> has the
  entries of the model's own state dict, by name and shape.
\<close>

definition model_load_state_dict ::
  "('p, 'g, 'os, 'x) framework \<Rightarrow> ('p, 'g) model \<Rightarrow> 'p \<Rightarrow> exn + ('p, 'g) model" where
  "model_load_state_dict fw m d =
     (if set (layout fw d) = set (layout fw (state_dict m)) then Inr (m\<lparr>state_dict := d\<rparr>)
      else Inl RuntimeError)"

text \<open>
  \<open>optimizer.load_state_dict(d)\<close> raises \<open>ValueError\<close> when \<open>d\<close> has another number of
  parameter groups than the optimizer, or a group with another number of parameters.
  Otherwise the optimizer takes the stored state and the stored groups, each group keeping
  the optimizer's own \<open>'params'\<close>.
\<close>

definition optimizer_load_state_dict ::
  "'os optimizer \<Rightarrow> 'os optimizer \<Rightarrow> exn + 'os optimizer" where
  "optimizer_load_state_dict opt d =
     (if length (param_groups opt) \<noteq> length (param_groups d) then Inl ValueError
      else if map (\<lambda>g. length (params g)) (param_groups opt)
                \<noteq> map (\<lambda>g. length (params g)) (param_groups d) then Inl ValueError
      else Inr \<lparr> state = state d,
                 param_groups =
                   map (\<lambda>(group, new_group). new_group\<lparr>params := params group\<rparr>)
                       (zip (param_groups opt) (param_groups d)) \<rparr>)"

text \<open>
  \<open>load_model\<close> (lines 118-128) reads the file (line 119), puts the stored parameters
  into the model (line 120) and the stored state into the optimizer (line 121), and then
  writes the configuration's learning rate and weight decay into every parameter group
  (lines 124-126). The entry \<open>'epoch'\<close> of the checkpoint is not looked at, and nothing is
  returned.
\<close>

definition load_model ::
  "config \<Rightarrow> ('p, 'g, 'os, 'x) framework \<Rightarrow> ('p, 'os) files \<Rightarrow> ('p, 'g) model \<Rightarrow>
     'os optimizer \<Rightarrow> string \<Rightarrow> error + (('p, 'g) model \<times> 'os optimizer)" where
  "load_model cfg fw fs m opt filename =
     (case at_line 119 (torch_load filename fs) of
        Inl e \<Rightarrow> Inl e
      | Inr checkpoint \<Rightarrow>
     (case at_line 120 (model_load_state_dict fw m (ckpt_state_dict checkpoint)) of
        Inl e \<Rightarrow> Inl e
      | Inr m \<Rightarrow>
     (case at_line 121 (optimizer_load_state_dict opt (ckpt_optimizer checkpoint)) of
        Inl e \<Rightarrow> Inl e
      | Inr opt \<Rightarrow>
          Inr (m, opt\<lparr>param_groups :=
                       map (\<lambda>param_group.
                              param_group\<lparr>options :=
                                (options param_group)
                                  (''lr'' \<mapsto> Num (learning_rate cfg),
                                   ''weight_decay'' \<mapsto> Num (weight_decay cfg))\<rparr>)
                           (param_groups opt)\<rparr>))))"

subsection \<open>The training loop\<close>

text \<open>
  One pass of the body of the batch loop of \<open>main\<close> (lines 144-167), on the loop's
  variables: model, optimizer, \<open>losses\<close>, \<open>num_correct\<close> and \<open>total_checked\<close>. The
  forward pass of line 153 raises when the model cannot be applied to the batch as it is
  passed.
\<close>

type_synonym ('p, 'g, 'os) loop_vars =
  "('p, 'g) model \<times> 'os optimizer \<times> real list \<times> nat \<times> nat"

fun train_batch ::
  "('p, 'g, 'os, 'x) framework \<Rightarrow> flags \<Rightarrow> ('p, 'g, 'os) loop_vars \<Rightarrow> 'x batch \<Rightarrow>
     error + ('p, 'g, 'os) loop_vars" where
  "train_batch fw fl (m, opt, losses, num_correct, total_checked) b =
     (let data = map fst b;
          target = map snd b;
          data = (if train_FC fl then map (reshape fw) data else data)
      in if \<not> list_all (accepts fw (arch m)) data then Inl (RuntimeError, 153)
         else
           (let scores = map (net fw (state_dict m) (training m)) data;
                loss = criterion fw scores target;
                losses = losses @ [loss];
                g = zero_grad fw (grads m);
                g = backward fw (state_dict m) (training m) data target g;
                (p, s) = step fw (param_groups opt) (state opt) g (state_dict m);
                m = m\<lparr>state_dict := p, grads := g\<rparr>;
                opt = opt\<lparr>state := s\<rparr>;
                preds = map (argmax fw) scores
            in Inr (m, opt, losses, num_correct + count_equal preds target,
                    total_checked + length preds)))"

text \<open>The loop over the batches: it stops at the first exception.\<close>

fun batch_loop_from ::
  "('p, 'g, 'os, 'x) framework \<Rightarrow> flags \<Rightarrow> ('p, 'g, 'os) loop_vars \<Rightarrow> 'x loader \<Rightarrow>
     error + ('p, 'g, 'os) loop_vars" where
  "batch_loop_from fw fl vars [] = Inr vars"
| "batch_loop_from fw fl vars (b # bs) =
     (case train_batch fw fl vars b of
        Inl e \<Rightarrow> Inl e
      | Inr vars' \<Rightarrow> batch_loop_from fw fl vars' bs)"

definition batch_loop ::
  "('p, 'g, 'os, 'x) framework \<Rightarrow> flags \<Rightarrow> ('p, 'g) model \<Rightarrow> 'os optimizer \<Rightarrow> 'x loader \<Rightarrow>
     error + ('p, 'g, 'os) loop_vars" where
  "batch_loop fw fl m opt train_loader =
     batch_loop_from fw fl (m, opt, [], 0, 0) train_loader"

text \<open>The three numbers an epoch prints (lines 174-177).\<close>

record metrics =
  mean_loss :: real
  validation_accuracy :: real
  training_accuracy :: real

text \<open>What \<open>main\<close> carries from epoch to epoch, with the disk and what was printed.\<close>

record ('p, 'g, 'os) run =
  model :: "('p, 'g) model"
  optimizer :: "'os optimizer"
  files :: "('p, 'os) files"
  printed :: "metrics list"

text \<open>
  One epoch (lines 140-178): the batch loop, the optional checkpoint (line 171), then the
  three reports in the order of the source. \<open>sum(losses)/len(losses)\<close> on line 174 raises
  when no batch was seen, \<open>check_accuracy\<close> may raise, and so may the division by
  \<open>total_checked\<close> on line 177.
\<close>

definition train_epoch ::
  "config \<Rightarrow> flags \<Rightarrow> ('p, 'g, 'os, 'x) framework \<Rightarrow> 'x loader \<Rightarrow> 'x loader \<Rightarrow>
     ('p, 'g, 'os) run \<Rightarrow> int \<Rightarrow> error + ('p, 'g, 'os) run" where
  "train_epoch cfg fl fw train_loader validation_loader r epoch =
     (case batch_loop fw fl (model r) (optimizer r) train_loader of
        Inl e \<Rightarrow> Inl e
      | Inr (m, opt, losses, num_correct, total_checked) \<Rightarrow>
     (case (if save_model cfg
            then save_checkpoint fw (checkpoint_file cfg) m opt epoch (files r)
            else Inr (files r)) of
        Inl e \<Rightarrow> Inl e
      | Inr fs \<Rightarrow>
          if length losses = 0 then Inl (ZeroDivisionError, 174)
          else
            (case check_accuracy fw fl validation_loader m of
               Inl e \<Rightarrow> Inl e
             | Inr (acc, m) \<Rightarrow>
                 if total_checked = 0 then Inl (ZeroDivisionError, 177)
                 else Inr \<lparr> model = m, optimizer = opt, files = fs,
                            printed = printed r @
                              [\<lparr> mean_loss = sum_list losses / real (length losses),
                                 validation_accuracy = acc,
                                 training_accuracy =
                                   real num_correct / real total_checked \<rparr>] \<rparr>)))"

text \<open>\<open>for epoch in range(self.num_epochs)\<close>: the epochs are taken in order, from 0.\<close>

definition py_range :: "int \<Rightarrow> int list" where
  "py_range n = map int [0..<nat n]"

fun train_epochs ::
  "config \<Rightarrow> flags \<Rightarrow> ('p, 'g, 'os, 'x) framework \<Rightarrow> 'x loader \<Rightarrow> 'x loader \<Rightarrow>
     ('p, 'g, 'os) run \<Rightarrow> int list \<Rightarrow> error + ('p, 'g, 'os) run" where
  "train_epochs cfg fl fw train_loader validation_loader r [] = Inr r"
| "train_epochs cfg fl fw train_loader validation_loader r (epoch # epochs) =
     (case train_epoch cfg fl fw train_loader validation_loader r epoch of
        Inl e \<Rightarrow> Inl e
      | Inr r' \<Rightarrow> train_epochs cfg fl fw train_loader validation_loader r' epochs)"

text \<open>
  \<open>torch.optim.SGD(model.parameters(), lr=..., weight_decay=...)\<close>: one parameter group
  over the given parameters, the framework's defaults with the two given options. The
  constructor raises \<open>ValueError\<close> for a negative learning rate or weight decay and for
  an empty list of parameters.
\<close>

definition SGD ::
  "('p, 'g, 'os, 'x) framework \<Rightarrow> nat list \<Rightarrow> real \<Rightarrow> real \<Rightarrow> exn + 'os optimizer" where
  "SGD fw ps lr wd =
     (if lr < 0 \<or> wd < 0 \<or> ps = [] then Inl ValueError
      else Inr \<lparr> state = no_state fw,
                 param_groups =
                   [\<lparr> params = ps,
                      options = (sgd_defaults fw)(''lr'' \<mapsto> Num lr,
                                                  ''weight_decay'' \<mapsto> Num wd) \<rparr>] \<rparr>)"

text \<open>\<open>model.parameters()\<close>: the trainable parameters of the model, by index.\<close>

definition parameters :: "('p, 'g, 'os, 'x) framework \<Rightarrow> ('p, 'g) model \<Rightarrow> nat list" where
  "parameters fw m = [0..<parameter_count fw (state_dict m)]"

text \<open>
  \<open>main\<close> (lines 130-178) in two parts. Line 137, the call of \<open>load_model\<close>, is commented
  out in the source under the comment "Uncomment if load model"; \<open>resume\<close> says whether it
  is uncommented. \<open>main_loop\<close> is lines 136-178: the optional load and the epoch loop,
  which is the same in both cases. \<open>main\<close> builds the model, the optimizer and the loaders
  and enters it.
\<close>

definition main_loop ::
  "config \<Rightarrow> flags \<Rightarrow> ('p, 'g, 'os, 'x) framework \<Rightarrow> 'x loader \<Rightarrow> 'x loader \<Rightarrow>
     ('p, 'os) files \<Rightarrow> ('p, 'g) model \<Rightarrow> 'os optimizer \<Rightarrow> bool \<Rightarrow>
     error + ('p, 'g, 'os) run" where
  "main_loop cfg fl fw train_loader validation_loader fs m opt resume =
     (case (if resume then load_model cfg fw fs m opt (checkpoint_file cfg)
            else Inr (m, opt)) of
        Inl e \<Rightarrow> Inl e
      | Inr (m, opt) \<Rightarrow>
          train_epochs cfg fl fw train_loader validation_loader
            \<lparr> model = m, optimizer = opt, files = fs, printed = [] \<rparr>
            (py_range (num_epochs cfg)))"

definition main ::
  "config \<Rightarrow> flags \<Rightarrow> ('p, 'g, 'os, 'x) framework \<Rightarrow> ('p, 'os, 'x) env \<Rightarrow> bool \<Rightarrow>
     error + ('p, 'g, 'os) run" where
  "main cfg fl fw ev resume =
     (case setup_model fl fw of
        Inl e \<Rightarrow> Inl e
      | Inr m \<Rightarrow>
     (case at_line 133
             (SGD fw (parameters fw m) (learning_rate cfg) (weight_decay cfg)) of
        Inl e \<Rightarrow> Inl e
      | Inr opt \<Rightarrow>
     (case load_data cfg ev of
        Inl e \<Rightarrow> Inl e
      | Inr (train_loader, validation_loader, test_loader) \<Rightarrow>
          main_loop cfg fl fw train_loader validation_loader (disk ev) m opt resume)))"

text \<open>
  The module as a whole: the assertion of line 23 runs first, then lines 180-181 build
  the configuration and call \<open>main\<close>.
\<close>

definition script ::
  "flags \<Rightarrow> ('p, 'g, 'os, 'x) framework \<Rightarrow> ('p, 'os, 'x) env \<Rightarrow> error + ('p, 'g, 'os) run" where
  "script fl fw ev =
     (case module_assert fl of
        Inl e \<Rightarrow> Inl e
      | Inr _ \<Rightarrow> main CNN_CIFAR10_init fl fw ev False)"

text \<open>
  What a run holds apart from the contents of the files: model, optimizer, what was
  printed, and the directories of the disk.
\<close>

definition in_memory ::
  "('p, 'g, 'os) run \<Rightarrow> ('p, 'g) model \<times> 'os optimizer \<times> metrics list \<times> string set" where
  "in_memory r = (model r, optimizer r, printed r, directories (files r))"

subsection \<open>A small instance\<close>

text \<open>
  A framework over natural numbers, small enough to run the definitions on. An image is
  a number below 100 and flattening adds 100; the convolutional network takes images and
  the fully connected one flattened images. A state dict below 1000 has one entry, the
  others have a second one. There are two class scores per sample, the first maximal
  score is the predicted class, and an optimizer step adds the gradient to the parameter
  and counts the steps.
\<close>

fun first_max :: "real list \<Rightarrow> nat" where
  "first_max [] = 0"
| "first_max (x # xs) = (if \<forall>y \<in> set xs. y \<le> x then 0 else Suc (first_max xs))"

definition example_framework :: "(nat, nat, nat, nat) framework" where
  "example_framework =
     \<lparr> vgg16 = 0, fullyNet = 1, no_grads = 0, no_state = 0,
       sgd_defaults = [''momentum'' \<mapsto> Num 0, ''nesterov'' \<mapsto> Flag False],
       save_error = FileNotFoundError,
       layout = (\<lambda>p. if p < 1000 then [(''weight'', [1])]
                     else [(''weight'', [1]), (''bias'', [1])]),
       parameter_count = (\<lambda>p. 1),
       accepts = (\<lambda>a x. case a of VGG16 \<Rightarrow> x < 100 | FullyNet \<Rightarrow> 100 \<le> x),
       net = (\<lambda>p t x. [real p, real x]),
       argmax = first_max,
       reshape = (\<lambda>x. x + 100),
       criterion = (\<lambda>scores target. real (length target)),
       zero_grad = (\<lambda>g. 0),
       backward = (\<lambda>p t data target g. g + length data),
       step = (\<lambda>groups s g p. (p + g, Suc s)) \<rparr>"

definition example_flags :: flags where
  "example_flags = \<lparr> train_CNN = True, train_FC = False \<rparr>"

definition example_model :: "(nat, nat) model" where
  "example_model = \<lparr> arch = VGG16, state_dict = 0, grads = 0, training = True \<rparr>"

definition example_optimizer :: "nat optimizer" where
  "example_optimizer =
     \<lparr> state = 7,
       param_groups =
         [\<lparr> params = [0],
            options = [''lr'' \<mapsto> Num (1 / 2), ''weight_decay'' \<mapsto> Num (1 / 10),
                       ''momentum'' \<mapsto> Num 0] \<rparr>] \<rparr>"

definition example_checkpoint :: "(nat, nat) checkpoint" where
  "example_checkpoint =
     \<lparr> ckpt_state_dict = 3, ckpt_epoch = 6, ckpt_optimizer = example_optimizer \<rparr>"

definition example_config :: config where
  "example_config = CNN_CIFAR10_init \<lparr> num_epochs := 1, batch_size := 2, save_model := True \<rparr>"

definition example_files :: "(nat, nat) files" where
  "example_files = \<lparr> directories = {''checkpoint''}, contents = Map.empty \<rparr>"

definition example_run :: "(nat, nat, nat) run" where
  "example_run =
     \<lparr> model = example_model, optimizer = example_optimizer, files = example_files,
       printed = [] \<rparr>"

definition example_env :: "(nat, nat, nat) env" where
  "example_env =
     \<lparr> train_source = replicate 50000 (0, 0), test_source = [],
       randperm = [0..<50000], disk = example_files \<rparr>"

section \<open>Properties\<close>

subsection \<open>The evaluator\<close>

lemma count_equal_le: "count_equal preds y \<le> length preds"
proof -
  have "count_equal preds y \<le> length (zip preds y)"
    unfolding count_equal_def by (rule length_filter_le)
  then show ?thesis by simp
qed

lemma accepts_batches_simps [simp]:
  "accepts_batches fw fl m [] = True"
  "accepts_batches fw fl m (b # bs) =
     (list_all (accepts fw (arch m))
        (if train_FC fl then map (reshape fw) (map fst b) else map fst b)
      \<and> accepts_batches fw fl m bs)"
  "accepts_batches fw fl m (xs @ ys) =
     (accepts_batches fw fl m xs \<and> accepts_batches fw fl m ys)"
  by (simp_all add: accepts_batches_def)

lemma accepts_batches_arch:
  "arch m' = arch m \<Longrightarrow> accepts_batches fw fl m' loader = accepts_batches fw fl m loader"
  by (simp add: accepts_batches_def)

lemma accepts_batches_no_sample:
  "concat loader = [] \<Longrightarrow> accepts_batches fw fl m loader"
  by (induction loader) simp_all

lemma accuracy_loop_counts:
  "accuracy_loop fw fl m loader (c, n) = Inr (c', n') \<Longrightarrow>
     n' = n + length (concat loader) \<and> c \<le> c' \<and> c' + n \<le> c + n'"
proof (induction loader arbitrary: c n)
  case Nil
  then show ?case by simp
next
  case (Cons b bs)
  define preds where
    "preds = map (argmax fw) (map (net fw (state_dict m) (training m))
               (if train_FC fl then map (reshape fw) (map fst b) else map fst b))"
  have len: "length preds = length b"
    unfolding preds_def by simp
  have k: "count_equal preds (map snd b) \<le> length b"
    using count_equal_le [of preds "map snd b"] len by simp
  from Cons.prems
  have "accuracy_loop fw fl m bs (c + count_equal preds (map snd b), n + length preds)
          = Inr (c', n')"
    unfolding preds_def by (simp add: Let_def split: if_splits)
  then have "accuracy_loop fw fl m bs (c + count_equal preds (map snd b), n + length b)
          = Inr (c', n')"
    using len by simp
  from Cons.IH [OF this] k show ?case by simp
qed

lemma accuracy_loop_accepted:
  "accepts_batches fw fl m loader \<Longrightarrow>
     \<exists>c' n'. accuracy_loop fw fl m loader (c, n) = Inr (c', n')"
proof (induction loader arbitrary: c n)
  case Nil
  then show ?case by simp
next
  case (Cons b bs)
  from Cons.prems have "accepts_batches fw fl m bs" by simp
  from Cons.IH [OF this] Cons.prems show ?case by (simp add: Let_def)
qed

lemma accuracy_loop_rejected:
  "\<not> accepts_batches fw fl m loader \<Longrightarrow>
     accuracy_loop fw fl m loader (c, n) = Inl (RuntimeError, 97)"
proof (induction loader arbitrary: c n)
  case Nil
  then show ?case by simp
next
  case (Cons b bs)
  show ?case
  proof (cases "list_all (accepts fw (arch m))
                  (if train_FC fl then map (reshape fw) (map fst b) else map fst b)")
    case True
    with Cons.prems have "\<not> accepts_batches fw fl m bs" by simp
    from Cons.IH [OF this] True show ?thesis by (simp add: Let_def)
  next
    case False
    then show ?thesis by (simp add: Let_def)
  qed
qed

lemma check_accuracy_cases:
  obtains (rejected) "\<not> accepts_batches fw fl m loader" "concat loader \<noteq> []"
      "check_accuracy fw fl loader m = Inl (RuntimeError, 97)"
  | (empty) "accepts_batches fw fl m loader" "concat loader = []"
      "check_accuracy fw fl loader m = Inl (ZeroDivisionError, 101)"
  | (counted) c n where "accepts_batches fw fl m loader"
      "n = length (concat loader)" "0 < n" "c \<le> n"
      "check_accuracy fw fl loader m =
         Inr (real c / real n * 100, m\<lparr>training := True\<rparr>)"
proof (cases "accepts_batches fw fl m loader")
  case False
  then have "\<not> accepts_batches fw fl (m\<lparr>training := False\<rparr>) loader"
    by (simp add: accepts_batches_def)
  then have "accuracy_loop fw fl (m\<lparr>training := False\<rparr>) loader (0, 0)
               = Inl (RuntimeError, 97)"
    by (rule accuracy_loop_rejected)
  then have "check_accuracy fw fl loader m = Inl (RuntimeError, 97)"
    by (simp add: check_accuracy_def)
  moreover from False have "concat loader \<noteq> []"
    using accepts_batches_no_sample [of loader fw fl m] by auto
  ultimately show thesis using False by (intro rejected)
next
  case True
  then have "accepts_batches fw fl (m\<lparr>training := False\<rparr>) loader"
    by (simp add: accepts_batches_def)
  from accuracy_loop_accepted [OF this]
  obtain c n where cn: "accuracy_loop fw fl (m\<lparr>training := False\<rparr>) loader (0, 0) = Inr (c, n)"
    by blast
  from accuracy_loop_counts [OF cn] have n: "n = length (concat loader)" and c: "c \<le> n"
    by simp_all
  show thesis
  proof (cases "n = 0")
    case z: True
    with n cn True show thesis by (intro empty) (simp_all add: check_accuracy_def)
  next
    case False
    with n c cn True show thesis by (intro counted [of n c]) (simp_all add: check_accuracy_def)
  qed
qed

text \<open>
  C2. When the iterator yields at least one sample, the evaluator returns a percentage
  between 0 and 100: it returns one whenever the model accepts the batches, and otherwise
  the forward pass of line 97 raises and nothing is returned. When the iterator yields no
  sample, as the empty iterator \<open>loader = []\<close> does, the evaluator raises
  \<open>ZeroDivisionError\<close> on line 101 and returns no number. So every accuracy that the
  evaluator returns is between 0 and 100 and comes from an iterator with a sample. A
  \<open>DataLoader\<close> never yields a batch without samples (\<open>iter_batches_nonempty\<close>), so for the
  iterators of this program "yields a sample" and "is not empty" are the same
  (\<open>DataLoader_nonempty_iff\<close>).
\<close>

theorem check_accuracy_percentage:
  "(concat loader = [] \<longrightarrow> check_accuracy fw fl loader m = Inl (ZeroDivisionError, 101)) \<and>
   (concat loader \<noteq> [] \<longrightarrow>
      (accepts_batches fw fl m loader \<longrightarrow>
         (\<exists>acc m'. check_accuracy fw fl loader m = Inr (acc, m') \<and> 0 \<le> acc \<and> acc \<le> 100)) \<and>
      (\<not> accepts_batches fw fl m loader \<longrightarrow>
         check_accuracy fw fl loader m = Inl (RuntimeError, 97))) \<and>
   (\<forall>acc m'. check_accuracy fw fl loader m = Inr (acc, m') \<longrightarrow>
      concat loader \<noteq> [] \<and> 0 \<le> acc \<and> acc \<le> 100)"
proof (cases rule: check_accuracy_cases [of fw fl m loader])
  case rejected
  then show ?thesis by simp
next
  case empty
  then show ?thesis by simp
next
  case (counted c n)
  have "real c \<le> real n" and "0 < real n" using counted(3,4) by simp_all
  then have "real c / real n * 100 \<le> 100" by (simp add: field_simps)
  moreover have "0 \<le> real c / real n * 100" by simp
  ultimately show ?thesis using counted(1,2,3,5) by auto
qed

theorem check_accuracy_percentage_witness:
  "check_accuracy example_framework example_flags [] example_model
     = Inl (ZeroDivisionError, 101) \<and>
   accepts_batches example_framework example_flags example_model [[(1, 1), (0, 1)], [(2, 0)]] \<and>
   (\<exists>acc m'. check_accuracy example_framework example_flags [[(1, 1), (0, 1)], [(2, 0)]]
                example_model = Inr (acc, m') \<and> 0 \<le> acc \<and> acc \<le> 100) \<and>
   \<not> accepts_batches example_framework example_flags example_model [[(1, 1), (200, 1)]] \<and>
   check_accuracy example_framework example_flags [[(1, 1), (200, 1)]] example_model
     = Inl (RuntimeError, 97)"
proof -
  have e: "concat ([] :: nat loader) = []" by simp
  have n: "concat [[(1::nat, 1::nat), (0, 1)], [(2, 0)]] \<noteq> []" by simp
  have n': "concat [[(1::nat, 1::nat), (200, 1)]] \<noteq> []" by simp
  have a: "accepts_batches example_framework example_flags example_model
             [[(1, 1), (0, 1)], [(2, 0)]]"
    by (simp add: example_framework_def example_flags_def example_model_def)
  have r: "\<not> accepts_batches example_framework example_flags example_model
             [[(1, 1), (200, 1)]]"
    by (simp add: example_framework_def example_flags_def example_model_def)
  from check_accuracy_percentage [of "[]" example_framework example_flags example_model]
       check_accuracy_percentage [of "[[(1, 1), (0, 1)], [(2, 0)]]" example_framework
         example_flags example_model]
       check_accuracy_percentage [of "[[(1, 1), (200, 1)]]" example_framework
         example_flags example_model] e n n' a r
  show ?thesis by blast
qed

text \<open>
  C8. When the evaluator returns, the model has the parameters (and gradient buffers) it
  had before, and it is in training mode; it is the same network.
\<close>

theorem check_accuracy_frame:
  "check_accuracy fw fl loader m = Inr (acc, m') \<Longrightarrow>
     state_dict m' = state_dict m \<and> grads m' = grads m \<and> training m' \<and> arch m' = arch m"
  by (cases rule: check_accuracy_cases [of fw fl m loader]) auto

theorem check_accuracy_frame_witness:
  "check_accuracy example_framework example_flags [[(1, 1), (0, 1)], [(2, 0)]] example_model
     = Inr (100 / 3, example_model)
   \<and> state_dict example_model = state_dict example_model
   \<and> grads example_model = grads example_model \<and> training example_model"
proof -
  have run: "check_accuracy example_framework example_flags [[(1, 1), (0, 1)], [(2, 0)]]
               example_model = Inr (100 / 3, example_model)"
    by (simp add: check_accuracy_def example_framework_def example_flags_def
          example_model_def count_equal_def)
  from check_accuracy_frame [OF run] run show ?thesis by simp
qed

subsection \<open>The assertion on the flags\<close>

lemma module_assert_cases:
  "module_assert \<lparr> train_CNN = False, train_FC = False \<rparr> = Inl (AssertionError, 23)"
  "module_assert \<lparr> train_CNN = True, train_FC = False \<rparr> = Inr ()"
  "module_assert \<lparr> train_CNN = False, train_FC = True \<rparr> = Inr ()"
  by (simp_all add: module_assert_def)

lemma script_neither:
  "script \<lparr> train_CNN = False, train_FC = False \<rparr> fw ev = Inl (AssertionError, 23)"
  by (simp add: module_assert_def script_def)

text \<open>
  C1. The claim asks that the assertion fail when both flags are set. It does not: with
  both flags set the assertion passes and the script goes on to \<open>main\<close>, which builds the
  convolutional model.
\<close>

theorem module_assert_accepts_both:
  "module_assert \<lparr> train_CNN = True, train_FC = True \<rparr> = Inr ()
   \<and> script \<lparr> train_CNN = True, train_FC = True \<rparr> fw ev
       = main CNN_CIFAR10_init \<lparr> train_CNN = True, train_FC = True \<rparr> fw ev False
   \<and> setup_model \<lparr> train_CNN = True, train_FC = True \<rparr> fw
       = Inr \<lparr> arch = VGG16, state_dict = vgg16 fw, grads = no_grads fw, training = True \<rparr>"
  by (simp add: module_assert_def script_def setup_model_def)

subsection \<open>Checkpoints\<close>

lemma save_checkpoint_writable:
  "writable fs filename \<Longrightarrow>
     save_checkpoint fw filename m opt e fs =
       Inr (fs\<lparr>contents := (contents fs)(filename \<mapsto>
              \<lparr> ckpt_state_dict = state_dict m, ckpt_epoch = e + 1,
                ckpt_optimizer = \<lparr> state = state opt, param_groups = param_groups opt \<rparr> \<rparr>)\<rparr>)"
  by (simp add: save_checkpoint_def torch_save_def at_line_def)

lemma save_checkpoint_not_writable:
  "\<not> writable fs filename \<Longrightarrow>
     save_checkpoint fw filename m opt e fs = Inl (save_error fw, 116)"
  by (simp add: save_checkpoint_def torch_save_def at_line_def)

lemma save_checkpoint_directories:
  "save_checkpoint fw filename m opt e fs = Inr fs' \<Longrightarrow>
     writable fs filename \<and> directories fs' = directories fs \<and>
     map_option ckpt_epoch (contents fs' filename) = Some (e + 1)"
  by (cases "writable fs filename")
     (auto simp: save_checkpoint_writable save_checkpoint_not_writable)

text \<open>The four outcomes of \<open>load_model\<close>, in the order of its lines.\<close>

lemma load_model_no_file:
  "contents fs filename = None \<Longrightarrow>
     load_model cfg fw fs m opt filename = Inl (FileNotFoundError, 119)"
  by (simp add: load_model_def torch_load_def at_line_def)

lemma load_model_other_parameters:
  "contents fs filename = Some c \<Longrightarrow>
   set (layout fw (ckpt_state_dict c)) \<noteq> set (layout fw (state_dict m)) \<Longrightarrow>
     load_model cfg fw fs m opt filename = Inl (RuntimeError, 120)"
  by (simp add: load_model_def torch_load_def model_load_state_dict_def at_line_def)

lemma load_model_other_groups:
  "contents fs filename = Some c \<Longrightarrow>
   set (layout fw (ckpt_state_dict c)) = set (layout fw (state_dict m)) \<Longrightarrow>
   map (\<lambda>g. length (params g)) (param_groups (ckpt_optimizer c))
     \<noteq> map (\<lambda>g. length (params g)) (param_groups opt) \<Longrightarrow>
     load_model cfg fw fs m opt filename = Inl (ValueError, 121)"
  by (auto simp: load_model_def torch_load_def model_load_state_dict_def
        optimizer_load_state_dict_def at_line_def)

lemma load_model_loaded:
  assumes "contents fs filename = Some c"
    and "set (layout fw (ckpt_state_dict c)) = set (layout fw (state_dict m))"
    and "map (\<lambda>g. length (params g)) (param_groups (ckpt_optimizer c))
           = map (\<lambda>g. length (params g)) (param_groups opt)"
  shows "load_model cfg fw fs m opt filename =
           Inr (m\<lparr>state_dict := ckpt_state_dict c\<rparr>,
                \<lparr> state = state (ckpt_optimizer c),
                  param_groups =
                    map (\<lambda>(group, new_group).
                           \<lparr> params = params group,
                             options = (options new_group)
                               (''lr'' \<mapsto> Num (learning_rate cfg),
                                ''weight_decay'' \<mapsto> Num (weight_decay cfg)) \<rparr>)
                        (zip (param_groups opt) (param_groups (ckpt_optimizer c))) \<rparr>)"
proof -
  from assms(3) have "length (map (\<lambda>g. length (params g)) (param_groups (ckpt_optimizer c)))
           = length (map (\<lambda>g. length (params g)) (param_groups opt))"
    by (simp only:)
  then have len: "length (param_groups opt) = length (param_groups (ckpt_optimizer c))"
    by simp
  have grp: "(\<lambda>param_group. param_group\<lparr>options := (options param_group)
                (''lr'' \<mapsto> Num (learning_rate cfg),
                 ''weight_decay'' \<mapsto> Num (weight_decay cfg))\<rparr>)
             \<circ> (\<lambda>(group, new_group). new_group\<lparr>params := params group\<rparr>)
           = (\<lambda>(group, new_group).
                 \<lparr> params = params group,
                   options = (options new_group)
                     (''lr'' \<mapsto> Num (learning_rate cfg),
                      ''weight_decay'' \<mapsto> Num (weight_decay cfg)) \<rparr>)"
    by (auto simp: fun_eq_iff)
  show ?thesis
    using assms(1,2) len assms(3) [symmetric]
    by (simp add: load_model_def torch_load_def model_load_state_dict_def
          optimizer_load_state_dict_def at_line_def grp)
qed

text \<open>
  C5, as the code has it. When the file holds a checkpoint whose parameters are those of
  the model (by name and shape) and whose optimizer state has the parameter groups of the
  optimizer (as many, over as many parameters), loading succeeds: the model has the stored
  parameters, the optimizer the stored state and as many groups as were stored, and every
  group has the learning rate and the weight decay of the current configuration, whatever
  the file stored for them.
\<close>

theorem load_model_overrides:
  assumes "contents fs filename = Some c"
    and "set (layout fw (ckpt_state_dict c)) = set (layout fw (state_dict m))"
    and "map (\<lambda>g. length (params g)) (param_groups (ckpt_optimizer c))
           = map (\<lambda>g. length (params g)) (param_groups opt)"
  shows "\<exists>m' opt'. load_model cfg fw fs m opt filename = Inr (m', opt') \<and>
           state_dict m' = ckpt_state_dict c \<and>
           state opt' = state (ckpt_optimizer c) \<and>
           length (param_groups opt') = length (param_groups (ckpt_optimizer c)) \<and>
           (\<forall>g \<in> set (param_groups opt').
              options g ''lr'' = Some (Num (learning_rate cfg)) \<and>
              options g ''weight_decay'' = Some (Num (weight_decay cfg)))"
proof -
  from assms(3) have "length (map (\<lambda>g. length (params g)) (param_groups (ckpt_optimizer c)))
           = length (map (\<lambda>g. length (params g)) (param_groups opt))"
    by (simp only:)
  then have len: "length (param_groups opt) = length (param_groups (ckpt_optimizer c))"
    by simp
  show ?thesis
    unfolding load_model_loaded [OF assms] using len by auto
qed

theorem load_model_overrides_witness:
  "contents \<lparr> directories = {}, contents = [''f'' \<mapsto> example_checkpoint] \<rparr> ''f''
     = Some example_checkpoint
   \<and> set (layout example_framework (ckpt_state_dict example_checkpoint))
       = set (layout example_framework (state_dict example_model))
   \<and> map (\<lambda>g. length (params g)) (param_groups (ckpt_optimizer example_checkpoint))
       = map (\<lambda>g. length (params g))
           (param_groups \<lparr> state = 0, param_groups = [\<lparr> params = [0], options = Map.empty \<rparr>] \<rparr>)
   \<and> map (\<lambda>g. (options g ''lr'', options g ''weight_decay''))
         (param_groups (ckpt_optimizer example_checkpoint))
       = [(Some (Num (1 / 2)), Some (Num (1 / 10)))]
   \<and> (\<exists>m' opt'.
         load_model CNN_CIFAR10_init example_framework
           \<lparr> directories = {}, contents = [''f'' \<mapsto> example_checkpoint] \<rparr>
           example_model \<lparr> state = 0, param_groups = [\<lparr> params = [0], options = Map.empty \<rparr>] \<rparr>
           ''f'' = Inr (m', opt') \<and>
         state_dict m' = ckpt_state_dict example_checkpoint \<and>
         state opt' = state (ckpt_optimizer example_checkpoint) \<and>
         length (param_groups opt') = length (param_groups (ckpt_optimizer example_checkpoint)) \<and>
         (\<forall>g \<in> set (param_groups opt').
           options g ''lr'' = Some (Num (learning_rate CNN_CIFAR10_init)) \<and>
           options g ''weight_decay'' = Some (Num (weight_decay CNN_CIFAR10_init))))"
proof -
  have h1: "contents \<lparr> directories = {}, contents = [''f'' \<mapsto> example_checkpoint] \<rparr> ''f''
     = Some example_checkpoint"
    by simp
  have h2: "set (layout example_framework (ckpt_state_dict example_checkpoint))
       = set (layout example_framework (state_dict example_model))"
    by (simp add: example_framework_def example_checkpoint_def example_model_def)
  have h3: "map (\<lambda>g. length (params g)) (param_groups (ckpt_optimizer example_checkpoint))
       = map (\<lambda>g. length (params g))
           (param_groups \<lparr> state = 0, param_groups = [\<lparr> params = [0], options = Map.empty \<rparr>] \<rparr>)"
    by (simp add: example_checkpoint_def example_optimizer_def)
  have g: "map (\<lambda>g. (options g ''lr'', options g ''weight_decay''))
         (param_groups (ckpt_optimizer example_checkpoint))
       = [(Some (Num (1 / 2)), Some (Num (1 / 10)))]"
    by (simp add: example_checkpoint_def example_optimizer_def)
  from load_model_overrides [OF h1 h2 h3, of CNN_CIFAR10_init] h1 h2 h3 g
  show ?thesis by (intro conjI)
qed

text \<open>
  C5, as the claim has it, fails for a checkpoint file whose optimizer state does not
  have the parameter groups of the optimizer: here the file stores two groups and the
  optimizer has one. Line 121 raises \<open>ValueError\<close>, and lines 124-126 are not reached.
  It fails as well for a file whose parameters are not those of the model: here the file
  stores an entry that the model does not have, and line 120 raises \<open>RuntimeError\<close>.
\<close>

theorem load_model_overrides_counterexample:
  "map (\<lambda>g. (options g ''lr'', options g ''weight_decay''))
      (param_groups example_optimizer)
     = [(Some (Num (1 / 2)), Some (Num (1 / 10)))]
   \<and> learning_rate CNN_CIFAR10_init = 1 / 1000
   \<and> load_model CNN_CIFAR10_init example_framework
       \<lparr> directories = {},
         contents = [''f'' \<mapsto>
           \<lparr> ckpt_state_dict = 3, ckpt_epoch = 6,
             ckpt_optimizer =
               \<lparr> state = 7,
                 param_groups = [\<lparr> params = [0], options = [''lr'' \<mapsto> Num 5] \<rparr>,
                                 \<lparr> params = [1], options = [''lr'' \<mapsto> Num 6] \<rparr>] \<rparr> \<rparr>] \<rparr>
       example_model example_optimizer ''f''
     = Inl (ValueError, 121)
   \<and> layout example_framework 1000 = [(''weight'', [1]), (''bias'', [1])]
   \<and> layout example_framework (state_dict example_model) = [(''weight'', [1])]
   \<and> load_model CNN_CIFAR10_init example_framework
       \<lparr> directories = {},
         contents = [''f'' \<mapsto> example_checkpoint\<lparr>ckpt_state_dict := 1000\<rparr>] \<rparr>
       example_model example_optimizer ''f''
     = Inl (RuntimeError, 120)"
  by (simp add: load_model_def torch_load_def model_load_state_dict_def
        optimizer_load_state_dict_def at_line_def example_framework_def example_model_def
        example_optimizer_def example_checkpoint_def CNN_CIFAR10_init_def)

lemma override_same:
  "options g ''lr'' = Some (Num lr) \<Longrightarrow> options g ''weight_decay'' = Some (Num wd) \<Longrightarrow>
     (options g)(''lr'' \<mapsto> Num lr, ''weight_decay'' \<mapsto> Num wd) = options g"
  by (auto simp: fun_eq_iff)

lemma regroup_same:
  assumes "map params gs0 = map params gs"
    and "\<forall>g \<in> set gs. options g ''lr'' = Some (Num lr) \<and>
           options g ''weight_decay'' = Some (Num wd)"
  shows "map (\<lambda>(group, new_group).
                \<lparr> params = params group,
                  options = (options new_group)(''lr'' \<mapsto> Num lr, ''weight_decay'' \<mapsto> Num wd) \<rparr>)
             (zip gs0 gs) = gs"
  using assms
proof (induction gs0 arbitrary: gs)
  case Nil
  then show ?case by simp
next
  case (Cons g0 gs0)
  then obtain g gs' where gs: "gs = g # gs'" by (cases gs) auto
  with Cons.prems have p: "params g0 = params g" and ps: "map params gs0 = map params gs'"
    and o: "options g ''lr'' = Some (Num lr)" "options g ''weight_decay'' = Some (Num wd)"
    and r: "\<forall>g \<in> set gs'. options g ''lr'' = Some (Num lr) \<and>
           options g ''weight_decay'' = Some (Num wd)"
    by simp_all
  have "\<lparr> params = params g0,
          options = (options g)(''lr'' \<mapsto> Num lr, ''weight_decay'' \<mapsto> Num wd) \<rparr> = g"
    unfolding override_same [OF o] p by simp
  with Cons.IH [OF ps r] gs show ?case
    by (simp only: zip_Cons_Cons list.map prod.case)
qed

text \<open>
  C3, as the code has it. When the file can be written, saving a model, an optimizer and
  an epoch \<open>e\<close> succeeds, and loading the file back succeeds for the model and optimizer
  that were saved, and for any with the same parameter names and shapes and the same
  sizes of parameter groups. The load gives the saved parameters, the saved optimizer
  state, and the saved parameter groups with the learning rate and the weight decay of
  the current configuration written over them; so the optimizer comes back as it was
  saved when its groups already had these two values. The file stores \<open>e + 1\<close> as its
  epoch; \<open>load_model\<close> returns nothing besides the model and the optimizer.
\<close>

theorem save_then_load:
  assumes "writable fs filename"
    and "set (layout fw (state_dict m)) = set (layout fw (state_dict m0))"
    and "map (\<lambda>g. length (params g)) (param_groups opt)
           = map (\<lambda>g. length (params g)) (param_groups opt0)"
  shows "\<exists>fs'. save_checkpoint fw filename m opt e fs = Inr fs' \<and>
     load_model cfg fw fs' m0 opt0 filename =
       Inr (m0\<lparr>state_dict := state_dict m\<rparr>,
            \<lparr> state = state opt,
              param_groups =
                map (\<lambda>(g0, g). \<lparr> params = params g0,
                                 options = (options g)
                                   (''lr'' \<mapsto> Num (learning_rate cfg),
                                    ''weight_decay'' \<mapsto> Num (weight_decay cfg)) \<rparr>)
                    (zip (param_groups opt0) (param_groups opt)) \<rparr>)
     \<and> map_option ckpt_epoch (contents fs' filename) = Some (e + 1)
     \<and> ((\<forall>g \<in> set (param_groups opt).
            options g ''lr'' = Some (Num (learning_rate cfg)) \<and>
            options g ''weight_decay'' = Some (Num (weight_decay cfg))) \<longrightarrow>
         map params (param_groups opt0) = map params (param_groups opt) \<longrightarrow>
          load_model cfg fw fs' m0 opt0 filename =
            Inr (m0\<lparr>state_dict := state_dict m\<rparr>, opt))"
proof -
  let ?c = "\<lparr> ckpt_state_dict = state_dict m, ckpt_epoch = e + 1,
              ckpt_optimizer = \<lparr> state = state opt, param_groups = param_groups opt \<rparr> \<rparr>"
  let ?fs = "fs\<lparr>contents := (contents fs)(filename \<mapsto> ?c)\<rparr>"
  have s: "save_checkpoint fw filename m opt e fs = Inr ?fs"
    using assms(1) by (rule save_checkpoint_writable)
  have c: "contents ?fs filename = Some ?c" by simp
  have a: "load_model cfg fw ?fs m0 opt0 filename =
       Inr (m0\<lparr>state_dict := state_dict m\<rparr>,
            \<lparr> state = state opt,
              param_groups =
                map (\<lambda>(g0, g). \<lparr> params = params g0,
                                 options = (options g)
                                   (''lr'' \<mapsto> Num (learning_rate cfg),
                                    ''weight_decay'' \<mapsto> Num (weight_decay cfg)) \<rparr>)
                    (zip (param_groups opt0) (param_groups opt)) \<rparr>)"
    using load_model_loaded [OF c, of fw m0 opt0 cfg] assms(2,3) by simp
  have b: "map_option ckpt_epoch (contents ?fs filename) = Some (e + 1)"
    by simp
  have d: "load_model cfg fw ?fs m0 opt0 filename = Inr (m0\<lparr>state_dict := state_dict m\<rparr>, opt)"
    if "\<forall>g \<in> set (param_groups opt).
          options g ''lr'' = Some (Num (learning_rate cfg)) \<and>
          options g ''weight_decay'' = Some (Num (weight_decay cfg))"
      and "map params (param_groups opt0) = map params (param_groups opt)"
    unfolding a using regroup_same [OF that(2) that(1)] by simp
  from s a b d show ?thesis by blast
qed

theorem save_then_load_witness:
  "writable example_files ''checkpoint/CIFAR10_VGG16''
   \<and> set (layout example_framework (state_dict (example_model\<lparr>state_dict := 5\<rparr>)))
       = set (layout example_framework (state_dict example_model))
   \<and> map (\<lambda>g. length (params g))
         [\<lparr> params = [0],
            options = [''lr'' \<mapsto> Num (1 / 1000), ''weight_decay'' \<mapsto> Num 0] \<rparr>]
       = map (\<lambda>g. length (params g)) (param_groups example_optimizer)
   \<and> list_all (\<lambda>g. options g ''lr'' = Some (Num (learning_rate CNN_CIFAR10_init)) \<and>
                    options g ''weight_decay'' = Some (Num (weight_decay CNN_CIFAR10_init)))
       [\<lparr> params = [0],
          options = [''lr'' \<mapsto> Num (1 / 1000), ''weight_decay'' \<mapsto> Num 0] \<rparr>]
   \<and> map params (param_groups example_optimizer) = [[0]]
   \<and> (\<exists>fs'. save_checkpoint example_framework ''checkpoint/CIFAR10_VGG16''
                (example_model\<lparr>state_dict := 5\<rparr>)
                \<lparr> state = 0,
                  param_groups =
                    [\<lparr> params = [0],
                       options = [''lr'' \<mapsto> Num (1 / 1000), ''weight_decay'' \<mapsto> Num 0] \<rparr>] \<rparr>
                4 example_files = Inr fs'
          \<and> load_model CNN_CIFAR10_init example_framework fs' example_model example_optimizer
              ''checkpoint/CIFAR10_VGG16''
              = Inr (example_model\<lparr>state_dict := 5\<rparr>,
                     \<lparr> state = 0,
                       param_groups =
                         [\<lparr> params = [0],
                            options = [''lr'' \<mapsto> Num (1 / 1000),
                                       ''weight_decay'' \<mapsto> Num 0] \<rparr>] \<rparr>)
          \<and> map_option ckpt_epoch (contents fs' ''checkpoint/CIFAR10_VGG16'') = Some 5)"
proof -
  let ?g = "\<lparr> params = [0::nat],
              options = [''lr'' \<mapsto> Num (1 / 1000), ''weight_decay'' \<mapsto> Num 0] \<rparr>"
  let ?opt = "\<lparr> state = 0::nat, param_groups = [?g] \<rparr>"
  have h1: "writable example_files ''checkpoint/CIFAR10_VGG16''"
    by (simp add: writable_def dirname_def example_files_def)
  have h2: "set (layout example_framework (state_dict (example_model\<lparr>state_dict := 5\<rparr>)))
       = set (layout example_framework (state_dict example_model))"
    by (simp add: example_framework_def example_model_def)
  have h3: "map (\<lambda>g. length (params g)) (param_groups ?opt)
       = map (\<lambda>g. length (params g)) (param_groups example_optimizer)"
    by (simp add: example_optimizer_def)
  have h4: "\<forall>g \<in> set (param_groups ?opt).
          options g ''lr'' = Some (Num (learning_rate CNN_CIFAR10_init)) \<and>
          options g ''weight_decay'' = Some (Num (weight_decay CNN_CIFAR10_init))"
    by (simp add: CNN_CIFAR10_init_def)
  have h5: "map params (param_groups example_optimizer) = map params (param_groups ?opt)"
    by (simp add: example_optimizer_def)
  from save_then_load [OF h1 h2 h3, where cfg = CNN_CIFAR10_init and e = 4]
  obtain fs' where
    s: "save_checkpoint example_framework ''checkpoint/CIFAR10_VGG16''
          (example_model\<lparr>state_dict := 5\<rparr>) ?opt 4
          example_files = Inr fs'"
    and e: "map_option ckpt_epoch (contents fs' ''checkpoint/CIFAR10_VGG16'') = Some (4 + 1)"
    and l: "(\<forall>g \<in> set (param_groups ?opt).
          options g ''lr'' = Some (Num (learning_rate CNN_CIFAR10_init)) \<and>
          options g ''weight_decay'' = Some (Num (weight_decay CNN_CIFAR10_init))) \<longrightarrow>
        map params (param_groups example_optimizer) = map params (param_groups ?opt) \<longrightarrow>
        load_model CNN_CIFAR10_init example_framework fs' example_model example_optimizer
          ''checkpoint/CIFAR10_VGG16''
          = Inr (example_model\<lparr>state_dict := state_dict (example_model\<lparr>state_dict := 5\<rparr>)\<rparr>,
                 ?opt)"
    by (elim exE conjE)
  from l h4 h5
  have "load_model CNN_CIFAR10_init example_framework fs' example_model example_optimizer
          ''checkpoint/CIFAR10_VGG16''
          = Inr (example_model\<lparr>state_dict := state_dict (example_model\<lparr>state_dict := 5\<rparr>)\<rparr>,
                 ?opt)"
    by (elim impE)
  then have l': "load_model CNN_CIFAR10_init example_framework fs' example_model
          example_optimizer ''checkpoint/CIFAR10_VGG16''
          = Inr (example_model\<lparr>state_dict := 5\<rparr>, ?opt)"
    by simp
  from e have e': "map_option ckpt_epoch (contents fs' ''checkpoint/CIFAR10_VGG16'') = Some 5"
    by simp
  from h4 have h4': "list_all (\<lambda>g. options g ''lr'' = Some (Num (learning_rate CNN_CIFAR10_init)) \<and>
                    options g ''weight_decay'' = Some (Num (weight_decay CNN_CIFAR10_init)))
       [?g]"
    by simp
  from h3 have h3': "map (\<lambda>g. length (params g)) [?g]
       = map (\<lambda>g. length (params g)) (param_groups example_optimizer)"
    by simp
  from h5 have h5': "map params (param_groups example_optimizer) = [[0]]"
    by simp
  from s l' e' have "\<exists>fs'. save_checkpoint example_framework ''checkpoint/CIFAR10_VGG16''
                (example_model\<lparr>state_dict := 5\<rparr>) ?opt 4 example_files = Inr fs'
          \<and> load_model CNN_CIFAR10_init example_framework fs' example_model example_optimizer
              ''checkpoint/CIFAR10_VGG16'' = Inr (example_model\<lparr>state_dict := 5\<rparr>, ?opt)
          \<and> map_option ckpt_epoch (contents fs' ''checkpoint/CIFAR10_VGG16'') = Some 5"
    by (intro exI [of _ fs'] conjI)
  with h1 h2 h3' h4' h5' show ?thesis by (intro conjI)
qed

text \<open>
  C3, as the claim has it, fails on both counts. An optimizer saved with learning rate
  1/2 comes back with the configuration's 1/1000, so the optimizer state is not the saved
  one. And after saving at epoch 5 and loading, the loop of \<open>main\<close> (one epoch, saving)
  leaves a checkpoint whose epoch is 1: it ran epoch 0, not epoch 6. And when the
  directory of the file does not exist, nothing is saved: line 116 raises.
\<close>

theorem save_then_load_counterexample:
  "save_checkpoint example_framework ''checkpoint/CIFAR10_VGG16'' example_model
     example_optimizer 5 example_files
     = Inr (example_files\<lparr>contents :=
              [''checkpoint/CIFAR10_VGG16'' \<mapsto> example_checkpoint\<lparr>ckpt_state_dict := 0\<rparr>]\<rparr>)
   \<and> map_sum id
       (\<lambda>(m, opt). (state_dict m, state opt, map (\<lambda>g. options g ''lr'') (param_groups opt)))
       (load_model example_config example_framework
          (example_files\<lparr>contents :=
              [''checkpoint/CIFAR10_VGG16'' \<mapsto> example_checkpoint\<lparr>ckpt_state_dict := 0\<rparr>]\<rparr>)
          example_model example_optimizer ''checkpoint/CIFAR10_VGG16'')
     = Inr (0, 7, [Some (Num (1 / 1000))])
   \<and> map (\<lambda>g. options g ''lr'') (param_groups example_optimizer) = [Some (Num (1 / 2))]
   \<and> map_sum id
       (\<lambda>r. map_option ckpt_epoch (contents (files r) ''checkpoint/CIFAR10_VGG16''))
       (main_loop example_config example_flags example_framework
          [[(1, 1), (0, 1)], [(2, 0)]] [[(1, 1)]]
          (example_files\<lparr>contents :=
              [''checkpoint/CIFAR10_VGG16'' \<mapsto> example_checkpoint\<lparr>ckpt_state_dict := 0\<rparr>]\<rparr>)
          example_model example_optimizer True)
     = Inr (Some 1)
   \<and> save_checkpoint example_framework ''checkpoint/CIFAR10_VGG16'' example_model
       example_optimizer 5 \<lparr> directories = {}, contents = Map.empty \<rparr>
     = Inl (FileNotFoundError, 116)"
  by (simp add: main_loop_def load_model_def save_checkpoint_def py_range_def
        torch_save_def torch_load_def model_load_state_dict_def optimizer_load_state_dict_def
        at_line_def writable_def dirname_def example_files_def example_checkpoint_def
        example_config_def CNN_CIFAR10_init_def train_epoch_def batch_loop_def
        example_model_def example_optimizer_def check_accuracy_def example_framework_def
        example_flags_def count_equal_def)

subsection \<open>The epoch loop\<close>

text \<open>
  C10, as the code has it. With no training batch the epoch never completes. When the
  configuration does not save, or the checkpoint file can be written, the exception is the
  \<open>ZeroDivisionError\<close> of line 174: the mean of the empty list of losses divides by zero.
  When the configuration saves and the file cannot be written, the write of line 116,
  called from line 171, raises first, with the exception of \<open>torch.save\<close>. This holds for every validation loader, state and
  epoch index.
\<close>

theorem train_epoch_empty_loader:
  "train_epoch cfg fl fw [] validation_loader r epoch =
     (if save_model cfg \<and> \<not> writable (files r) (checkpoint_file cfg)
      then Inl (save_error fw, 116)
      else Inl (ZeroDivisionError, 174))"
  by (simp add: train_epoch_def batch_loop_def save_checkpoint_writable
        save_checkpoint_not_writable)

theorem train_epoch_empty_loader_witness:
  "\<not> save_model CNN_CIFAR10_init
   \<and> train_epoch CNN_CIFAR10_init example_flags example_framework [] [[(1, 1)]] example_run 0
       = Inl (ZeroDivisionError, 174)
   \<and> save_model example_config
   \<and> writable (files example_run) (checkpoint_file example_config)
   \<and> train_epoch example_config example_flags example_framework [] [[(1, 1)]] example_run 0
       = Inl (ZeroDivisionError, 174)"
proof -
  have h1: "\<not> save_model CNN_CIFAR10_init"
    by (simp add: CNN_CIFAR10_init_def)
  have h2: "save_model example_config"
    by (simp add: example_config_def)
  have h3: "writable (files example_run) (checkpoint_file example_config)"
    by (simp add: writable_def dirname_def example_run_def example_files_def
          example_config_def CNN_CIFAR10_init_def)
  from train_epoch_empty_loader [of CNN_CIFAR10_init example_flags example_framework
         "[[(1, 1)]]" example_run 0] h1
  have a: "train_epoch CNN_CIFAR10_init example_flags example_framework [] [[(1, 1)]]
             example_run 0 = Inl (ZeroDivisionError, 174)"
    by simp
  from train_epoch_empty_loader [of example_config example_flags example_framework
         "[[(1, 1)]]" example_run 0] h3
  have b: "train_epoch example_config example_flags example_framework [] [[(1, 1)]]
             example_run 0 = Inl (ZeroDivisionError, 174)"
    by simp
  from h1 a h2 h3 b show ?thesis by (intro conjI)
qed

text \<open>
  C10, as the claim has it, fails for a configuration that saves when the directory of
  the checkpoint file does not exist: the epoch with no training batch ends in the
  exception of the write, and line 174 is not reached.
\<close>

theorem train_epoch_empty_loader_counterexample:
  "save_model example_config
   \<and> checkpoint_file example_config = ''checkpoint/CIFAR10_VGG16''
   \<and> train_epoch example_config example_flags example_framework [] [[(1, 1)]]
       (example_run\<lparr>files := \<lparr> directories = {}, contents = Map.empty \<rparr>\<rparr>) 0
       = Inl (FileNotFoundError, 116)"
  by (simp add: train_epoch_def batch_loop_def save_checkpoint_def torch_save_def at_line_def
        writable_def dirname_def example_config_def CNN_CIFAR10_init_def example_run_def
        example_framework_def)

subsection \<open>Resuming from a checkpoint\<close>

lemma load_model_epoch:
  "load_model cfg fw (fs\<lparr>contents := (contents fs)(filename \<mapsto> c\<lparr>ckpt_epoch := e\<rparr>)\<rparr>) m opt
       filename
     = load_model cfg fw (fs\<lparr>contents := (contents fs)(filename \<mapsto> c)\<rparr>) m opt filename"
  by (simp add: load_model_def torch_load_def at_line_def cong: sum.case_cong)

lemma map_sum_eqD:
  assumes "map_sum id f x = map_sum id f y"
  obtains (err) e where "x = Inl e" "y = Inl e"
  | (ok) a b where "x = Inr a" "y = Inr b" "f a = f b"
  using assms by (cases x; cases y) auto

lemma train_epoch_in_memory:
  assumes "in_memory r1 = in_memory r2"
  shows "map_sum id in_memory (train_epoch cfg fl fw trl vll r1 e)
       = map_sum id in_memory (train_epoch cfg fl fw trl vll r2 e)"
proof -
  from assms have m: "model r1 = model r2" and o: "optimizer r1 = optimizer r2"
    and p: "printed r1 = printed r2" and d: "directories (files r1) = directories (files r2)"
    by (simp_all add: in_memory_def)
  from d have w: "writable (files r1) f = writable (files r2) f" for f
    by (simp add: writable_def)
  show ?thesis
  proof (cases "save_model cfg \<and> \<not> writable (files r2) (checkpoint_file cfg)")
    case True
    then show ?thesis
      by (simp add: train_epoch_def m o w save_checkpoint_not_writable split: sum.splits)
  next
    case False
    then show ?thesis
      by (auto simp: train_epoch_def m o p d w in_memory_def save_checkpoint_writable
            split: sum.splits prod.splits)
  qed
qed

lemma train_epochs_in_memory:
  "in_memory r1 = in_memory r2 \<Longrightarrow>
     map_sum id in_memory (train_epochs cfg fl fw trl vll r1 es)
       = map_sum id in_memory (train_epochs cfg fl fw trl vll r2 es)"
proof (induction es arbitrary: r1 r2)
  case Nil
  then show ?case by simp
next
  case (Cons e es)
  from train_epoch_in_memory [OF Cons.prems, of cfg fl fw trl vll e]
  show ?case
  proof (cases rule: map_sum_eqD)
    case (err x)
    then show ?thesis by simp
  next
    case (ok a b)
    with Cons.IH [of a b] show ?thesis by simp
  qed
qed

lemma main_loop_epoch:
  "map_sum id in_memory
     (main_loop cfg fl fw trl vll
        (fs\<lparr>contents := (contents fs)(checkpoint_file cfg \<mapsto> c\<lparr>ckpt_epoch := e\<rparr>)\<rparr>) m opt True)
   = map_sum id in_memory
     (main_loop cfg fl fw trl vll
        (fs\<lparr>contents := (contents fs)(checkpoint_file cfg \<mapsto> c)\<rparr>) m opt True)"
proof -
  let ?fe = "fs\<lparr>contents := (contents fs)(checkpoint_file cfg \<mapsto> c\<lparr>ckpt_epoch := e\<rparr>)\<rparr>"
  let ?f = "fs\<lparr>contents := (contents fs)(checkpoint_file cfg \<mapsto> c)\<rparr>"
  have l: "load_model cfg fw ?fe m opt (checkpoint_file cfg)
      = load_model cfg fw ?f m opt (checkpoint_file cfg)"
    by (rule load_model_epoch)
  show ?thesis
  proof (cases "load_model cfg fw ?f m opt (checkpoint_file cfg)")
    case (Inl err)
    with l show ?thesis by (simp add: main_loop_def)
  next
    case (Inr mo)
    obtain m' opt' where mo: "mo = (m', opt')" by (cases mo)
    have "in_memory \<lparr> model = m', optimizer = opt', files = ?fe, printed = [] \<rparr>
        = in_memory \<lparr> model = m', optimizer = opt', files = ?f, printed = [] \<rparr>"
      by (simp add: in_memory_def)
    from train_epochs_in_memory [OF this] l Inr mo show ?thesis
      by (simp add: main_loop_def)
  qed
qed

lemma main_epoch:
  "map_sum id in_memory
     (main cfg fl fw
        (ev\<lparr>disk := (disk ev)\<lparr>contents :=
               (contents (disk ev))(checkpoint_file cfg \<mapsto> c\<lparr>ckpt_epoch := e\<rparr>)\<rparr>\<rparr>) True)
   = map_sum id in_memory
     (main cfg fl fw
        (ev\<lparr>disk := (disk ev)\<lparr>contents :=
               (contents (disk ev))(checkpoint_file cfg \<mapsto> c)\<rparr>\<rparr>) True)"
proof -
  have ld: "load_data cfg (ev\<lparr>disk := d\<rparr>) = load_data cfg ev" for d
    by (simp add: load_data_def cong: sum.case_cong list.case_cong)
  show ?thesis
    by (simp add: main_def ld main_loop_epoch split: sum.splits prod.splits)
qed

lemma train_epoch_saves:
  assumes "train_epoch cfg fl fw trl vll r e = Inr r'" and "save_model cfg"
  shows "map_option ckpt_epoch (contents (files r') (checkpoint_file cfg)) = Some (e + 1)"
  using assms
  by (auto simp: train_epoch_def split: prod.splits sum.splits if_splits
        dest: save_checkpoint_directories)

lemma train_epochs_saves:
  "train_epochs cfg fl fw trl vll r es = Inr r' \<Longrightarrow> save_model cfg \<Longrightarrow> es \<noteq> [] \<Longrightarrow>
     map_option ckpt_epoch (contents (files r') (checkpoint_file cfg)) = Some (last es + 1)"
proof (induction es arbitrary: r)
  case Nil
  then show ?case by simp
next
  case (Cons e es)
  from Cons.prems(1) obtain r1 where
    r1: "train_epoch cfg fl fw trl vll r e = Inr r1"
    and rest: "train_epochs cfg fl fw trl vll r1 es = Inr r'"
    by (auto split: sum.splits)
  show ?case
  proof (cases "es = []")
    case True
    with rest have "r' = r1" by simp
    with train_epoch_saves [OF r1 Cons.prems(2)] True show ?thesis by simp
  next
    case False
    with Cons.IH [OF rest Cons.prems(2)] show ?thesis by simp
  qed
qed

lemma py_range_first:
  "0 < n \<Longrightarrow> py_range n = 0 # map int [1..<nat n]"
  by (simp add: py_range_def upt_conv_Cons)

lemma py_range_last:
  "0 < n \<Longrightarrow> py_range n \<noteq> [] \<and> last (py_range n) + 1 = n"
proof -
  assume n: "0 < n"
  then obtain k where k: "nat n = Suc k" by (cases "nat n") auto
  then have "py_range n = map int [0..<k] @ [int k]"
    by (simp add: py_range_def)
  with n k show ?thesis by auto
qed

text \<open>
  C9. \<open>load_model\<close> does not depend on the epoch stored in the checkpoint, and neither
  does what a resumed \<open>main\<close> computes: the same models, optimizers and reports (or the
  same error) for every stored epoch. After the load the first epoch that runs is epoch
  0, followed by 1, 2, ...; and a resumed run of \<open>n > 0\<close> epochs that saves leaves a
  checkpoint whose epoch is \<open>n\<close>, whatever epoch the loaded checkpoint had.
\<close>

theorem load_model_ignores_epoch:
  "load_model cfg fw (fs\<lparr>contents := (contents fs)(filename \<mapsto> c\<lparr>ckpt_epoch := e\<rparr>)\<rparr>) m opt
       filename
     = load_model cfg fw (fs\<lparr>contents := (contents fs)(filename \<mapsto> c)\<rparr>) m opt filename
   \<and> map_sum id in_memory
       (main cfg fl fw
          (ev\<lparr>disk := (disk ev)\<lparr>contents :=
                 (contents (disk ev))(checkpoint_file cfg \<mapsto> c\<lparr>ckpt_epoch := e\<rparr>)\<rparr>\<rparr>) True)
     = map_sum id in_memory
       (main cfg fl fw
          (ev\<lparr>disk := (disk ev)\<lparr>contents :=
                 (contents (disk ev))(checkpoint_file cfg \<mapsto> c)\<rparr>\<rparr>) True)
   \<and> (0 < num_epochs cfg \<longrightarrow>
        main_loop cfg fl fw trl vll fs m opt True =
          (case load_model cfg fw fs m opt (checkpoint_file cfg) of
             Inl err \<Rightarrow> Inl err
           | Inr (m', opt') \<Rightarrow>
               (case train_epoch cfg fl fw trl vll
                       \<lparr> model = m', optimizer = opt', files = fs, printed = [] \<rparr> 0 of
                  Inl err \<Rightarrow> Inl err
                | Inr r \<Rightarrow>
                    train_epochs cfg fl fw trl vll r (map int [1..<nat (num_epochs cfg)]))))
   \<and> (save_model cfg \<longrightarrow> 0 < num_epochs cfg \<longrightarrow>
        main_loop cfg fl fw trl vll fs m opt True = Inr r' \<longrightarrow>
        map_option ckpt_epoch (contents (files r') (checkpoint_file cfg))
          = Some (num_epochs cfg))"
proof (intro conjI impI)
  show "load_model cfg fw (fs\<lparr>contents := (contents fs)(filename \<mapsto> c\<lparr>ckpt_epoch := e\<rparr>)\<rparr>)
          m opt filename
     = load_model cfg fw (fs\<lparr>contents := (contents fs)(filename \<mapsto> c)\<rparr>) m opt filename"
    by (rule load_model_epoch)
  show "map_sum id in_memory
       (main cfg fl fw
          (ev\<lparr>disk := (disk ev)\<lparr>contents :=
                 (contents (disk ev))(checkpoint_file cfg \<mapsto> c\<lparr>ckpt_epoch := e\<rparr>)\<rparr>\<rparr>) True)
     = map_sum id in_memory
       (main cfg fl fw
          (ev\<lparr>disk := (disk ev)\<lparr>contents :=
                 (contents (disk ev))(checkpoint_file cfg \<mapsto> c)\<rparr>\<rparr>) True)"
    by (rule main_epoch)
next
  assume "0 < num_epochs cfg"
  then show "main_loop cfg fl fw trl vll fs m opt True =
          (case load_model cfg fw fs m opt (checkpoint_file cfg) of
             Inl err \<Rightarrow> Inl err
           | Inr (m', opt') \<Rightarrow>
               (case train_epoch cfg fl fw trl vll
                       \<lparr> model = m', optimizer = opt', files = fs, printed = [] \<rparr> 0 of
                  Inl err \<Rightarrow> Inl err
                | Inr r \<Rightarrow>
                    train_epochs cfg fl fw trl vll r (map int [1..<nat (num_epochs cfg)])))"
    by (simp add: main_loop_def py_range_first split: sum.splits prod.splits)
next
  assume s: "save_model cfg" and n: "0 < num_epochs cfg"
    and r: "main_loop cfg fl fw trl vll fs m opt True = Inr r'"
  from r obtain m' opt' where
    "train_epochs cfg fl fw trl vll
       \<lparr> model = m', optimizer = opt', files = fs, printed = [] \<rparr> (py_range (num_epochs cfg))
     = Inr r'"
    by (auto simp: main_loop_def split: sum.splits)
  from train_epochs_saves [OF this s] py_range_last [OF n]
  show "map_option ckpt_epoch (contents (files r') (checkpoint_file cfg))
          = Some (num_epochs cfg)"
    by simp
qed

theorem load_model_ignores_epoch_witness:
  "0 < num_epochs example_config \<and> save_model example_config
   \<and> ckpt_epoch example_checkpoint = 6
   \<and> (\<exists>r. main_loop example_config example_flags example_framework
              [[(1, 1), (0, 1)], [(2, 0)]] [[(1, 1)]]
              (example_files\<lparr>contents :=
                 [checkpoint_file example_config \<mapsto> example_checkpoint]\<rparr>)
              example_model example_optimizer True = Inr r
          \<and> map_option ckpt_epoch (contents (files r) (checkpoint_file example_config))
              = Some 1)"
proof -
  have h1: "0 < num_epochs example_config"
    by (simp add: example_config_def)
  have h2: "save_model example_config"
    by (simp add: example_config_def)
  have h3: "ckpt_epoch example_checkpoint = 6"
    by (simp add: example_checkpoint_def)
  have "map_sum id model
          (main_loop example_config example_flags example_framework
              [[(1, 1), (0, 1)], [(2, 0)]] [[(1, 1)]]
              (example_files\<lparr>contents :=
                 [checkpoint_file example_config \<mapsto> example_checkpoint]\<rparr>)
              example_model example_optimizer True)
        = Inr \<lparr> arch = VGG16, state_dict = 6, grads = 1, training = True \<rparr>"
    by (simp add: main_loop_def load_model_def save_checkpoint_def py_range_def
        torch_save_def torch_load_def model_load_state_dict_def optimizer_load_state_dict_def
        at_line_def writable_def dirname_def example_files_def
        example_config_def CNN_CIFAR10_init_def train_epoch_def batch_loop_def
        example_model_def example_optimizer_def example_checkpoint_def check_accuracy_def
        example_framework_def example_flags_def count_equal_def)
  then obtain r where
    r: "main_loop example_config example_flags example_framework
              [[(1, 1), (0, 1)], [(2, 0)]] [[(1, 1)]]
              (example_files\<lparr>contents :=
                 [checkpoint_file example_config \<mapsto> example_checkpoint]\<rparr>)
              example_model example_optimizer True = Inr r"
    by (auto simp: map_sum_def split: sum.splits)
  from load_model_ignores_epoch [THEN conjunct2, THEN conjunct2, THEN conjunct2, rule_format,
         OF h2 h1 r]
  have "map_option ckpt_epoch (contents (files r) (checkpoint_file example_config)) = Some 1"
    by (simp add: example_config_def)
  with h1 h2 h3 r show ?thesis by blast
qed

subsection \<open>Batches of an epoch\<close>

lemma iter_batches_Nil [simp]: "iter_batches n [] = []"
  by (simp add: iter_batches.simps)

lemma iter_batches_step:
  "0 < n \<Longrightarrow> xs \<noteq> [] \<Longrightarrow> iter_batches n xs = take n xs # iter_batches n (drop n xs)"
  by (subst iter_batches.simps) simp

lemma concat_iter_batches: "0 < n \<Longrightarrow> concat (iter_batches n xs) = xs"
proof (induction n xs rule: iter_batches.induct)
  case (1 n xs)
  show ?case
  proof (cases "xs = []")
    case True
    then show ?thesis by simp
  next
    case False
    with "1.prems" "1.IH" show ?thesis by (simp add: iter_batches_step)
  qed
qed

lemma iter_batches_nonempty:
  "b \<in> set (iter_batches n xs) \<Longrightarrow> b \<noteq> [] \<and> length b \<le> n"
proof (induction n xs rule: iter_batches.induct)
  case (1 n xs)
  show ?case
  proof (cases "n = 0 \<or> xs = []")
    case True
    with "1.prems" show ?thesis by (simp add: iter_batches.simps)
  next
    case False
    then have n: "0 < n" and xs: "xs \<noteq> []" by simp_all
    from "1.prems" have "b = take n xs \<or> b \<in> set (iter_batches n (drop n xs))"
      by (simp add: iter_batches_step [OF n xs])
    then show ?thesis
    proof
      assume "b = take n xs"
      with n xs show ?thesis by simp
    next
      assume "b \<in> set (iter_batches n (drop n xs))"
      with "1.IH" False show ?thesis by simp
    qed
  qed
qed

text \<open>For a loader that \<open>DataLoader\<close> built, being non-empty and yielding a sample are the same.\<close>

lemma DataLoader_nonempty_iff:
  assumes "DataLoader dataset bs nw = Inr loader"
  shows "(loader \<noteq> []) = (concat loader \<noteq> [])"
proof -
  from assms have n: "0 < nat bs" and l: "loader = iter_batches (nat bs) dataset"
    by (auto simp: DataLoader_def split: if_splits)
  from n l have c: "concat loader = dataset" by (simp add: concat_iter_batches)
  show ?thesis
  proof (cases "dataset = []")
    case True
    with l c show ?thesis by simp
  next
    case False
    with n l c show ?thesis by (simp add: iter_batches_step)
  qed
qed

lemma length_iter_batches:
  "0 < n \<Longrightarrow> length (iter_batches n xs) = (length xs + n - 1) div n"
proof (induction n xs rule: iter_batches.induct)
  case (1 n xs)
  show ?case
  proof (cases "xs = []")
    case True
    with "1.prems" show ?thesis by simp
  next
    case False
    then have pos: "0 < length xs" by simp
    from pos have e: "length xs + n - 1 = (length xs - 1) + n" by arith
    have "((length xs - 1) + n) div n = Suc ((length xs - 1) div n)"
      using "1.prems" by simp
    then have split: "(length xs + n - 1) div n = Suc ((length xs - 1) div n)"
      by (simp only: e)
    have rest: "length (iter_batches n (drop n xs)) = (length xs - 1) div n"
    proof (cases "length xs \<le> n")
      case True
      with pos have "length xs - 1 < n" by arith
      then have "(length xs - 1) div n = 0" by simp
      moreover from True have "drop n xs = []" by simp
      ultimately show ?thesis by simp
    next
      case False
      then have d: "length (drop n xs) + n - 1 = length xs - 1" by simp
      from "1.IH" "1.prems" \<open>xs \<noteq> []\<close>
      have "length (iter_batches n (drop n xs)) = (length (drop n xs) + n - 1) div n"
        by simp
      then show ?thesis by (simp only: d)
    qed
    have "length (iter_batches n xs) = Suc (length (iter_batches n (drop n xs)))"
      using "1.prems" False by (simp add: iter_batches_step)
    also have "\<dots> = Suc ((length xs - 1) div n)" by (simp only: rest)
    also have "\<dots> = (length xs + n - 1) div n" by (simp only: split)
    finally show ?thesis .
  qed
qed

lemma ceiling_batches:
  assumes "0 < n"
  shows "int ((N + n - 1) div n) = \<lceil>real N / real n\<rceil>"
proof -
  define q where "q = (N + n - 1) div n"
  have a: "q * n \<le> N + n - 1"
    unfolding q_def by (rule div_times_less_eq_dividend)
  have b: "N + n - 1 < n + q * n"
    unfolding q_def using assms by (rule dividend_less_div_times)
  from b assms have up: "N \<le> q * n" by arith
  from a assms have lo: "q * n < N + n" by arith
  from assms have n: "0 < real n" by simp
  from up have "real N \<le> real (q * n)" by (rule of_nat_mono)
  with n have hi: "real N / real n \<le> real q" by (simp add: field_simps)
  from lo have "real (q * n) < real (N + n)" by (simp only: of_nat_less_iff)
  with n have low: "real q - 1 < real N / real n" by (simp add: field_simps)
  have "\<lceil>real N / real n\<rceil> = int q"
    by (rule ceiling_unique) (use hi low in simp_all)
  then show ?thesis by (simp add: q_def)
qed

text \<open>One pass of the loop body on a batch that the model accepts, statement by statement.\<close>

lemma train_batch_pass:
  assumes "list_all (accepts fw (arch m))
             (if train_FC fl then map (reshape fw) (map fst b) else map fst b)"
  shows "train_batch fw fl (m, opt, losses, num_correct, total_checked) b =
           (let data = (if train_FC fl then map (reshape fw) (map fst b) else map fst b);
                target = map snd b;
                scores = map (net fw (state_dict m) (training m)) data;
                loss = criterion fw scores target;
                g = backward fw (state_dict m) (training m) data target
                      (zero_grad fw (grads m));
                (p, s) = step fw (param_groups opt) (state opt) g (state_dict m)
            in Inr (m\<lparr>state_dict := p, grads := g\<rparr>, opt\<lparr>state := s\<rparr>, losses @ [loss],
                    num_correct + count_equal (map (argmax fw) scores) target,
                    total_checked + length b))"
  using assms by (simp add: Let_def split: prod.splits)

lemma train_batch_returns:
  assumes "list_all (accepts fw (arch m))
             (if train_FC fl then map (reshape fw) (map fst b) else map fst b)"
  shows "\<exists>m' opt' losses' c' t'.
           train_batch fw fl (m, opt, losses, c, t) b = Inr (m', opt', losses', c', t')"
  using assms by (simp add: Let_def split: prod.splits)

lemma train_batch_rejected:
  "\<not> list_all (accepts fw (arch m))
       (if train_FC fl then map (reshape fw) (map fst b) else map fst b) \<Longrightarrow>
     train_batch fw fl (m, opt, losses, num_correct, total_checked) b = Inl (RuntimeError, 153)"
  by (simp add: Let_def)

lemma train_batch_counts:
  assumes "train_batch fw fl (m, opt, losses, c, t) b = Inr (m', opt', losses', c', t')"
  shows "arch m' = arch m \<and> length losses' = Suc (length losses) \<and> t' = t + length b"
proof (cases "list_all (accepts fw (arch m))
                (if train_FC fl then map (reshape fw) (map fst b) else map fst b)")
  case True
  from assms show ?thesis
    unfolding train_batch_pass [OF True] by (auto simp: Let_def split: prod.splits)
next
  case False
  from assms show ?thesis
    unfolding train_batch_rejected [OF False] by simp
qed

lemma batch_loop_from_append:
  "batch_loop_from fw fl vars (xs @ ys) =
     (case batch_loop_from fw fl vars xs of
        Inl e \<Rightarrow> Inl e
      | Inr vars' \<Rightarrow> batch_loop_from fw fl vars' ys)"
  by (induction xs arbitrary: vars) (simp_all split: sum.splits)

lemma batch_loop_from_accepted:
  "accepts_batches fw fl m loader \<Longrightarrow>
     \<exists>m' opt' losses' c' t'.
       batch_loop_from fw fl (m, opt, losses, c, t) loader = Inr (m', opt', losses', c', t') \<and>
       arch m' = arch m \<and> length losses' = length losses + length loader \<and>
       t' = t + length (concat loader)"
proof (induction loader arbitrary: m opt losses c t)
  case Nil
  then show ?case by simp
next
  case (Cons b bs)
  from Cons.prems
  have a: "list_all (accepts fw (arch m))
             (if train_FC fl then map (reshape fw) (map fst b) else map fst b)"
    and rest: "accepts_batches fw fl m bs"
    by simp_all
  from train_batch_returns [OF a, of opt losses c t]
  obtain m1 opt1 losses1 c1 t1 where
    s: "train_batch fw fl (m, opt, losses, c, t) b = Inr (m1, opt1, losses1, c1, t1)"
    by (elim exE)
  from train_batch_counts [OF s]
  have k: "arch m1 = arch m" "length losses1 = Suc (length losses)" "t1 = t + length b"
    by simp_all
  from rest have "accepts_batches fw fl m1 bs"
    by (simp add: accepts_batches_arch [OF k(1)])
  from Cons.IH [OF this, of opt1 losses1 c1 t1]
  obtain m' opt' losses' c' t' where
    r: "batch_loop_from fw fl (m1, opt1, losses1, c1, t1) bs = Inr (m', opt', losses', c', t')"
    and r': "arch m' = arch m1" "length losses' = length losses1 + length bs"
      "t' = t1 + length (concat bs)"
    by (elim exE conjE)
  have "batch_loop_from fw fl (m, opt, losses, c, t) (b # bs) = Inr (m', opt', losses', c', t')"
    by (simp only: batch_loop_from.simps s r sum.case)
  with k r' show ?case by simp
qed

lemma batch_loop_from_rejected:
  "\<not> accepts_batches fw fl m loader \<Longrightarrow>
     batch_loop_from fw fl (m, opt, losses, c, t) loader = Inl (RuntimeError, 153)"
proof (induction loader arbitrary: m opt losses c t)
  case Nil
  then show ?case by simp
next
  case (Cons b bs)
  show ?case
  proof (cases "list_all (accepts fw (arch m))
                  (if train_FC fl then map (reshape fw) (map fst b) else map fst b)")
    case False
    then have "train_batch fw fl (m, opt, losses, c, t) b = Inl (RuntimeError, 153)"
      by (rule train_batch_rejected)
    then show ?thesis by (simp only: batch_loop_from.simps sum.case)
  next
    case True
    from train_batch_returns [OF True, of opt losses c t]
    obtain m1 opt1 losses1 c1 t1 where
      s: "train_batch fw fl (m, opt, losses, c, t) b = Inr (m1, opt1, losses1, c1, t1)"
      by (elim exE)
    from train_batch_counts [OF s] have k: "arch m1 = arch m" by simp
    from Cons.prems True have "\<not> accepts_batches fw fl m bs" by simp
    then have "\<not> accepts_batches fw fl m1 bs"
      by (simp add: accepts_batches_arch [OF k])
    from Cons.IH [OF this, of opt1 losses1 c1 t1]
    show ?thesis by (simp only: batch_loop_from.simps s sum.case)
  qed
qed

lemma batch_loop_from_snoc:
  assumes "batch_loop_from fw fl vars xs = Inr (m, opt, losses, num_correct, total_checked)"
    and "list_all (accepts fw (arch m))
           (if train_FC fl then map (reshape fw) (map fst b) else map fst b)"
  shows "(let data = (if train_FC fl then map (reshape fw) (map fst b) else map fst b);
              target = map snd b;
              scores = map (net fw (state_dict m) (training m)) data;
              loss = criterion fw scores target;
              g = backward fw (state_dict m) (training m) data target
                    (zero_grad fw (grads m));
              (p, s) = step fw (param_groups opt) (state opt) g (state_dict m)
          in batch_loop_from fw fl vars (xs @ [b]) =
               Inr (m\<lparr>state_dict := p, grads := g\<rparr>, opt\<lparr>state := s\<rparr>, losses @ [loss],
                    num_correct + count_equal (map (argmax fw) scores) target,
                    total_checked + length b))"
proof -
  have "batch_loop_from fw fl vars (xs @ [b]) =
          train_batch fw fl (m, opt, losses, num_correct, total_checked) b"
    by (simp add: batch_loop_from_append assms(1) split: sum.splits)
  then show ?thesis
    unfolding train_batch_pass [OF assms(2)] by (simp add: Let_def split: prod.splits)
qed

lemma accepts_batches_concat:
  "accepts_batches fw fl m loader = accepts_batches fw fl m [concat loader]"
  by (induction loader) auto

lemma accepts_batches_iter_batches:
  assumes "accepts_batches fw fl m [dataset]"
  shows "accepts_batches fw fl m (iter_batches n dataset)"
proof (cases "n = 0")
  case True
  then show ?thesis by (simp add: iter_batches.simps)
next
  case False
  then have "concat (iter_batches n dataset) = dataset"
    by (simp add: concat_iter_batches)
  with assms show ?thesis
    by (subst accepts_batches_concat) (simp only:)
qed

lemma accepts_batches_take:
  assumes "accepts_batches fw fl m loader"
  shows "accepts_batches fw fl m (take i loader)"
proof -
  have "accepts_batches fw fl m (take i loader @ drop i loader)"
    using assms by (simp only: append_take_drop_id)
  then show ?thesis by (simp only: accepts_batches_simps(3))
qed

lemma accepts_batches_nth:
  assumes "accepts_batches fw fl m loader" and "i < length loader"
  shows "list_all (accepts fw (arch m))
           (if train_FC fl then map (reshape fw) (map fst (loader ! i))
            else map fst (loader ! i))"
proof -
  from assms(1)
  have "\<forall>b \<in> set loader. list_all (accepts fw (arch m))
           (if train_FC fl then map (reshape fw) (map fst b) else map fst b)"
    unfolding accepts_batches_def by (simp only: list_all_iff)
  moreover from assms(2) have "loader ! i \<in> set loader" by (rule nth_mem)
  ultimately show ?thesis by (rule bspec)
qed

lemma train_epoch_completes:
  assumes "accepts_batches fw fl (model r) train_loader"
    and "concat train_loader \<noteq> []"
    and "accepts_batches fw fl (model r) validation_loader"
    and "concat validation_loader \<noteq> []"
    and "save_model cfg \<longrightarrow> writable (files r) (checkpoint_file cfg)"
  shows "\<exists>r'. train_epoch cfg fl fw train_loader validation_loader r epoch = Inr r'"
proof -
  from batch_loop_from_accepted [OF assms(1), of "optimizer r" "[]" 0 0]
  obtain m opt losses c t where
    b: "batch_loop fw fl (model r) (optimizer r) train_loader = Inr (m, opt, losses, c, t)"
    and a: "arch m = arch (model r)"
    and k: "length losses = length train_loader" "t = length (concat train_loader)"
    unfolding batch_loop_def by auto
  from assms(2) have "train_loader \<noteq> []" by auto
  with k assms(2) have l: "length losses \<noteq> 0" and t: "t \<noteq> 0" by auto
  have "\<exists>fs. (if save_model cfg
              then save_checkpoint fw (checkpoint_file cfg) m opt epoch (files r)
              else Inr (files r)) = Inr fs"
    using assms(5) by (cases "save_model cfg") (simp_all add: save_checkpoint_writable)
  then obtain fs where
    s: "(if save_model cfg
         then save_checkpoint fw (checkpoint_file cfg) m opt epoch (files r)
         else Inr (files r)) = Inr fs"
    by (elim exE)
  from assms(3) have "accepts_batches fw fl m validation_loader"
    by (simp add: accepts_batches_arch [OF a])
  with assms(4) obtain acc m' where
    v: "check_accuracy fw fl validation_loader m = Inr (acc, m')"
    by (cases rule: check_accuracy_cases [of fw fl m validation_loader]) auto
  from l t show ?thesis
    by (simp add: train_epoch_def b s v)
qed

lemma DataLoader_ok:
  "0 < bs \<Longrightarrow> 0 \<le> nw \<Longrightarrow> DataLoader dataset bs nw = Inr (iter_batches (nat bs) dataset)"
  by (simp add: DataLoader_def)




subsection \<open>The split into training and validation data\<close>

lemma split_indices_two:
  "split_indices perm [a, b] = [take a perm, take b (drop a perm)]"
  by simp

lemma permutation_facts:
  assumes "mset perm = mset [0..<n]"
  shows "length perm = n" and "distinct perm" and "set perm = {0..<n}"
proof -
  from assms have "size (mset perm) = size (mset [0..<n])" by simp
  then show "length perm = n" by simp
  from assms have "distinct perm = distinct [0..<n]" by (rule mset_eq_imp_distinct_iff)
  then show "distinct perm" by simp
  from assms have "set perm = set [0..<n]" by (rule mset_eq_setD)
  then show "set perm = {0..<n}" by simp
qed

lemma take_drop_partition:
  assumes "distinct perm" and "length perm = a + b"
  shows "length (take a perm) = a" and "length (take b (drop a perm)) = b"
    and "set (take a perm) \<inter> set (take b (drop a perm)) = {}"
    and "set (take a perm) \<union> set (take b (drop a perm)) = set perm"
    and "distinct (take a perm @ take b (drop a perm))"
proof -
  from assms(2) have d: "take b (drop a perm) = drop a perm" by simp
  from assms(2) show "length (take a perm) = a" by simp
  from assms(2) show "length (take b (drop a perm)) = b" by simp
  from assms(1) have "distinct (take a perm @ drop a perm)" by simp
  then show "distinct (take a perm @ take b (drop a perm))" by (simp only: d)
  then show "set (take a perm) \<inter> set (take b (drop a perm)) = {}" by simp
  have "set (take a perm) \<union> set (drop a perm) = set perm"
    by (metis append_take_drop_id set_append)
  then show "set (take a perm) \<union> set (take b (drop a perm)) = set perm"
    by (simp only: d)
qed

lemma random_split_two:
  assumes "length dataset = a + b"
  shows "random_split dataset [a, b] perm
           = Inr [(dataset, take a perm), (dataset, take b (drop a perm))]"
  using assms by (simp add: random_split_def)

lemma load_data_split:
  assumes "random_split (train_source ev) [40000, 10000] (randperm ev)
             = Inr [train_data, validation_data]"
    and "0 < batch_size cfg" and "0 \<le> num_workers cfg"
  shows "\<exists>train_loader validation_loader test_loader.
           load_data cfg ev = Inr (train_loader, validation_loader, test_loader) \<and>
           concat train_loader = subset_items train_data \<and>
           concat validation_loader = subset_items validation_data"
proof -
  from assms(2) have n: "0 < nat (batch_size cfg)" by simp
  have "load_data cfg ev =
          Inr (iter_batches (nat (batch_size cfg)) (subset_items train_data),
               iter_batches (nat (batch_size cfg)) (subset_items validation_data),
               iter_batches (nat (batch_size cfg)) (test_source ev))"
    by (simp add: load_data_def at_line_def assms(1) DataLoader_ok [OF assms(2,3)])
  then show ?thesis by (simp add: concat_iter_batches [OF n])
qed

text \<open>
  C6. When the training source has 50,000 images and the generator draws a permutation of
  their indices, the split succeeds with a training subset of exactly 40,000 and a
  validation subset of exactly 10,000 images; no index is in both, together they are all
  of \<open>0, ..., 49999\<close>, and no index is repeated. The train and validation loaders that
  \<open>load_data\<close> returns yield exactly the samples of these two subsets.
\<close>

theorem split_sizes:
  assumes "length (train_source ev) = 50000"
    and "mset (randperm ev) = mset [0..<50000]"
  shows "\<exists>train_data validation_data.
           random_split (train_source ev) [40000, 10000] (randperm ev)
             = Inr [train_data, validation_data] \<and>
           length (subset_items train_data) = 40000 \<and>
           length (subset_items validation_data) = 10000 \<and>
           set (snd train_data) \<inter> set (snd validation_data) = {} \<and>
           set (snd train_data) \<union> set (snd validation_data) = {0..<50000} \<and>
           distinct (snd train_data @ snd validation_data) \<and>
           (0 < batch_size cfg \<longrightarrow> 0 \<le> num_workers cfg \<longrightarrow>
              (\<exists>train_loader validation_loader test_loader.
                 load_data cfg ev = Inr (train_loader, validation_loader, test_loader) \<and>
                 concat train_loader = subset_items train_data \<and>
                 concat validation_loader = subset_items validation_data))"
proof -
  let ?p = "randperm ev"
  let ?tr = "(train_source ev, take 40000 ?p)"
  let ?va = "(train_source ev, take 10000 (drop 40000 ?p))"
  have sum: "(50000::nat) = 40000 + 10000" by simp
  from permutation_facts [OF assms(2)]
  have len: "length ?p = 40000 + 10000" and dist: "distinct ?p" and elems: "set ?p = {0..<50000}"
    by (simp_all only: sum)
  from assms(1) have "length (train_source ev) = 40000 + 10000" by (simp only: sum)
  then have rs: "random_split (train_source ev) [40000, 10000] ?p = Inr [?tr, ?va]"
    by (rule random_split_two)
  note part = take_drop_partition [OF dist len]
  have "length (subset_items ?tr) = 40000" "length (subset_items ?va) = 10000"
    using part(1,2) by (simp_all add: subset_items_def)
  moreover have "set (snd ?tr) \<inter> set (snd ?va) = {}"
    using part(3) by simp
  moreover have "set (snd ?tr) \<union> set (snd ?va) = {0..<50000}"
    using part(4) elems by simp
  moreover have "distinct (snd ?tr @ snd ?va)"
    using part(5) by simp
  moreover have "0 < batch_size cfg \<longrightarrow> 0 \<le> num_workers cfg \<longrightarrow>
              (\<exists>train_loader validation_loader test_loader.
                 load_data cfg ev = Inr (train_loader, validation_loader, test_loader) \<and>
                 concat train_loader = subset_items ?tr \<and>
                 concat validation_loader = subset_items ?va)"
    using load_data_split [OF rs] by blast
  ultimately show ?thesis using rs by blast
qed

theorem split_sizes_witness:
  "length (train_source example_env) = 50000
   \<and> mset (randperm example_env) = mset [0..<50000]
   \<and> 0 < batch_size CNN_CIFAR10_init \<and> 0 \<le> num_workers CNN_CIFAR10_init
   \<and> (\<exists>train_data validation_data.
           random_split (train_source example_env) [40000, 10000] (randperm example_env)
             = Inr [train_data, validation_data] \<and>
           length (subset_items train_data) = 40000 \<and>
           length (subset_items validation_data) = 10000 \<and>
           set (snd train_data) \<inter> set (snd validation_data) = {} \<and>
           set (snd train_data) \<union> set (snd validation_data) = {0..<50000} \<and>
           distinct (snd train_data @ snd validation_data) \<and>
           (\<exists>train_loader validation_loader test_loader.
                 load_data CNN_CIFAR10_init example_env
                   = Inr (train_loader, validation_loader, test_loader) \<and>
                 concat train_loader = subset_items train_data \<and>
                 concat validation_loader = subset_items validation_data))"
proof -
  have h1: "length (train_source example_env) = 50000"
    unfolding example_env_def by (simp only: env.simps length_replicate)
  have h2: "mset (randperm example_env) = mset [0..<50000]"
    unfolding example_env_def by (simp only: env.simps)
  have h3: "0 < batch_size CNN_CIFAR10_init"
    by (simp add: CNN_CIFAR10_init_def)
  have h4: "0 \<le> num_workers CNN_CIFAR10_init"
    by (simp add: CNN_CIFAR10_init_def)
  from split_sizes [OF h1 h2, of CNN_CIFAR10_init] h1 h2 h3 h4
  show ?thesis by blast
qed

subsection \<open>The shuffle field\<close>

lemma train_epoch_shuffle:
  "train_epoch (cfg\<lparr>shuffle := b\<rparr>) fl fw trl vll r e = train_epoch cfg fl fw trl vll r e"
  by (simp add: train_epoch_def cong: prod.case_cong sum.case_cong if_cong)

lemma train_epochs_shuffle:
  "train_epochs (cfg\<lparr>shuffle := b\<rparr>) fl fw trl vll r es = train_epochs cfg fl fw trl vll r es"
  by (induction es arbitrary: r) (simp_all add: train_epoch_shuffle split: sum.splits)

lemma load_data_shuffle: "load_data (cfg\<lparr>shuffle := b\<rparr>) ev = load_data cfg ev"
  by (simp add: load_data_def cong: sum.case_cong list.case_cong)

lemma load_model_shuffle:
  "load_model (cfg\<lparr>shuffle := b\<rparr>) fw fs m opt filename = load_model cfg fw fs m opt filename"
  by (simp add: load_model_def cong: sum.case_cong)

lemma main_loop_shuffle:
  "main_loop (cfg\<lparr>shuffle := b\<rparr>) fl fw trl vll fs m opt resume
     = main_loop cfg fl fw trl vll fs m opt resume"
  by (simp add: main_loop_def load_model_shuffle train_epochs_shuffle
        cong: sum.case_cong prod.case_cong)

text \<open>
  C4. The claim asks that the order of the batches depend on the field \<open>shuffle\<close>. The
  field is set (to \<open>True\<close>) and never read: the loaders, and the whole run, are the same
  for both values, and the loaders are built without the \<open>shuffle\<close> argument, so that
  every epoch takes the batches in the order of the training subset.
\<close>

theorem shuffle_not_read:
  "shuffle CNN_CIFAR10_init
   \<and> load_data (cfg\<lparr>shuffle := b\<rparr>) ev = load_data cfg ev
   \<and> main (cfg\<lparr>shuffle := b\<rparr>) fl fw ev resume = main cfg fl fw ev resume"
  by (simp add: CNN_CIFAR10_init_def load_data_shuffle main_def main_loop_shuffle
        cong: sum.case_cong prod.case_cong)

end
